theory Spec2Isabelle
  imports Complex_Main "HOL-Library.Word"
begin

section \<open>Numbers\<close>

text \<open>
  The program computes with JavaScript numbers. Finite values are modelled as reals
  (rounding is idealised away); the two places where the source divides by a buffer
  length use \<open>number\<close>, which keeps the non-finite results of the division apart.
\<close>

section \<open>InstrumentClassifier\<close>

text \<open>\<^verbatim>\<open>export type Instrument = 'none' | 'drums' | 'bass' | 'guitar'\<close>\<close>

datatype Instrument = none | drums | bass | guitar

text \<open>The private fields of the class, in declaration order.\<close>

record InstrumentClassifier =
  holdSeconds :: real
  current :: Instrument
  lastSwitchAt :: real

text \<open>\<^verbatim>\<open>constructor(holdSeconds = 5)\<close>: the other two fields keep their initialisers.\<close>

definition newInstrumentClassifier :: "real \<Rightarrow> InstrumentClassifier" where
  "newInstrumentClassifier h = \<lparr> holdSeconds = h, current = none, lastSwitchAt = 0 \<rparr>"

text \<open>\<^verbatim>\<open>classifyInstant\<close>: four early returns and the final \<^verbatim>\<open>return 'none'\<close>.\<close>

definition classifyInstant :: "real \<Rightarrow> real \<Rightarrow> real \<Rightarrow> real \<Rightarrow> bool \<Rightarrow> Instrument" where
  "classifyInstant rms low mid high beat =
     (if beat \<and> high > 0.5 \<and> mid < 0.6 then drums
      else if low > 0.45 \<and> mid < 0.35 then bass
      else if mid > 0.5 \<and> high < 0.5 then guitar
      else if rms < 0.08 then none
      else none)"

text \<open>\<^verbatim>\<open>update\<close> returns the label and leaves the object in its new state.\<close>

definition update :: "real \<Rightarrow> real \<Rightarrow> real \<Rightarrow> real \<Rightarrow> real \<Rightarrow> bool \<Rightarrow> InstrumentClassifier
    \<Rightarrow> Instrument \<times> InstrumentClassifier" where
  "update timeSec rms low mid high beat c =
     (let proposed = classifyInstant rms low mid high beat;
          c' = (if proposed \<noteq> current c \<and> timeSec - lastSwitchAt c \<ge> holdSeconds c
                then c\<lparr> current := proposed, lastSwitchAt := timeSec \<rparr>
                else c)
      in (current c', c'))"

text \<open>One call of \<^verbatim>\<open>update\<close>: its six arguments.\<close>

record Call =
  c_time :: real
  c_rms :: real
  c_low :: real
  c_mid :: real
  c_high :: real
  c_beat :: bool

definition updateCall :: "Call \<Rightarrow> InstrumentClassifier \<Rightarrow> Instrument \<times> InstrumentClassifier" where
  "updateCall k c = update (c_time k) (c_rms k) (c_low k) (c_mid k) (c_high k) (c_beat k) c"

text \<open>The labels returned by a sequence of calls on one classifier object.\<close>

fun labels :: "InstrumentClassifier \<Rightarrow> Call list \<Rightarrow> Instrument list" where
  "labels c [] = []"
| "labels c (k # ks) = (let (l, c') = updateCall k c in l # labels c' ks)"

text \<open>
  The times of the calls at which the returned label differs from the label the
  classifier held before the call.
\<close>

fun labelChanges :: "InstrumentClassifier \<Rightarrow> Call list \<Rightarrow> real list" where
  "labelChanges c [] = []"
| "labelChanges c (k # ks) =
     (let (l, c') = updateCall k c
      in (if l \<noteq> current c then [c_time k] else []) @ labelChanges c' ks)"

section \<open>AudioEngine: feature extraction\<close>

text \<open>
  A JavaScript number that may be non-finite: the result of a division whose divisor
  can be zero, and of \<^verbatim>\<open>Math.sqrt\<close> applied to it.
\<close>

datatype number = Num real | PosInf | NegInf | NaN

text \<open>\<^verbatim>\<open>x / y\<close> for finite x and a finite y that is never the negative zero.\<close>

definition jsDiv :: "real \<Rightarrow> real \<Rightarrow> number" where
  "jsDiv x y =
     (if y \<noteq> 0 then Num (x / y)
      else if x = 0 then NaN
      else if x > 0 then PosInf else NegInf)"

definition jsSqrt :: "number \<Rightarrow> number" where
  "jsSqrt v =
     (case v of
        Num x \<Rightarrow> (if x < 0 then NaN else Num (sqrt x))
      | PosInf \<Rightarrow> PosInf
      | NegInf \<Rightarrow> NaN
      | NaN \<Rightarrow> NaN)"

text \<open>A \<^verbatim>\<open>Uint8Array\<close> is a list of bytes; \<^verbatim>\<open>freq[i]\<close> reads it as a number.\<close>

type_synonym Uint8Array = "8 word list"

definition byte :: "8 word \<Rightarrow> real" where
  "byte b = real (unat b)"

text \<open>\<^verbatim>\<open>computeRmsFromFreq\<close>: the loop accumulates \<^verbatim>\<open>sumSquares\<close> over the buffer.\<close>

definition computeRmsFromFreq :: "Uint8Array \<Rightarrow> number" where
  "computeRmsFromFreq freq =
     (let n = length freq;
          sumSquares = foldl (\<lambda>acc b. let v = byte b / 255 in acc + v * v) 0 freq
      in jsSqrt (jsDiv sumSquares (real n)))"

text \<open>
  \<^verbatim>\<open>average(arr, from, to)\<close>. A read beyond the end of the array yields
  \<^verbatim>\<open>undefined\<close>, which turns the sum, and so the result, into NaN.
\<close>

definition average :: "Uint8Array \<Rightarrow> nat \<Rightarrow> nat \<Rightarrow> number" where
  "average arr from to =
     (let len = max 1 (int to - int from);
          sum = foldl (\<lambda>acc i. acc + byte (arr ! i)) 0 [from ..< to]
      in if from < to \<and> length arr < to then NaN
         else Num (sum / real_of_int len / 255))"

text \<open>The object \<^verbatim>\<open>{ low, mid, high }\<close> that \<^verbatim>\<open>computeBands\<close> returns.\<close>

record Bands =
  bands_low :: number
  bands_mid :: number
  bands_high :: number

definition computeBands :: "Uint8Array \<Rightarrow> Bands" where
  "computeBands freq =
     (let n = length freq;
          oneThird = n div 3
      in \<lparr> bands_low = average freq 0 oneThird,
           bands_mid = average freq oneThird (2 * oneThird),
           bands_high = average freq (2 * oneThird) n \<rparr>)"

definition computeInstantEnergy :: "Uint8Array \<Rightarrow> number" where
  "computeInstantEnergy timeData =
     (let n = length timeData;
          sum = foldl (\<lambda>acc b. let s = (byte b - 128) / 128 in acc + s * s) 0 timeData
      in jsDiv sum (real n))"

definition averageArray :: "real list \<Rightarrow> real" where
  "averageArray arr =
     (if length arr = 0 then 0 else foldl (\<lambda>s v. s + v) 0 arr / real (length arr))"

section \<open>AudioEngine: beat detector\<close>

text \<open>The fields of \<^verbatim>\<open>AudioEngine\<close> that \<^verbatim>\<open>detectBeat\<close> reads and writes.\<close>

record AudioEngine =
  energyHistory :: "real list"
  maxEnergyHistory :: nat
  lastBeatAt :: real
  beatSensitivity :: real

definition newAudioEngine :: AudioEngine where
  "newAudioEngine =
     \<lparr> energyHistory = [], maxEnergyHistory = 43, lastBeatAt = 0, beatSensitivity = 0.6 \<rparr>"

definition setBeatSensitivity :: "real \<Rightarrow> AudioEngine \<Rightarrow> AudioEngine" where
  "setBeatSensitivity s e = e\<lparr> beatSensitivity := max 0 (min 1 s) \<rparr>"

text \<open>\<^verbatim>\<open>push\<close> followed by the conditional \<^verbatim>\<open>shift\<close>.\<close>

definition pushEnergy :: "real \<Rightarrow> AudioEngine \<Rightarrow> real list" where
  "pushEnergy energy e =
     (let h = energyHistory e @ [energy]
      in if length h > maxEnergyHistory e then tl h else h)"

text \<open>The variance loop of \<^verbatim>\<open>detectBeat\<close>, followed by the division by the length.\<close>

definition varianceLoop :: "real \<Rightarrow> real list \<Rightarrow> real" where
  "varianceLoop mean h =
     foldl (\<lambda>variance x. let d = x - mean in variance + d * d) 0 h / real (length h)"

definition detectBeat :: "real \<Rightarrow> real \<Rightarrow> AudioEngine \<Rightarrow> bool \<times> AudioEngine" where
  "detectBeat energy nowSec e =
     (let h = pushEnergy energy e;
          e1 = e\<lparr> energyHistory := h \<rparr>
      in if length h < 8 then (False, e1)
         else
           let mean = averageArray h;
               variance = varianceLoop mean h;
               std = sqrt (max variance (1 / 10 ^ 8));
               k = 2.0 - 1.5 * beatSensitivity e1;
               threshold = mean + k * std;
               minInterval = 0.12;
               canTrigger = nowSec - lastBeatAt e1 > minInterval;
               isBeat = canTrigger \<and> energy > threshold
           in (isBeat, if isBeat then e1\<lparr> lastBeatAt := nowSec \<rparr> else e1))"

text \<open>
  The statistics as the specification words them: the mean of the history and its
  population variance.
\<close>

definition histMean :: "real list \<Rightarrow> real" where
  "histMean h = sum_list h / real (length h)"

definition histVariance :: "real list \<Rightarrow> real" where
  "histVariance h = (\<Sum>x\<leftarrow>h. (x - histMean h)\<^sup>2) / real (length h)"

definition beatThreshold :: "real \<Rightarrow> real list \<Rightarrow> real" where
  "beatThreshold sensitivity h =
     histMean h + (2.0 - 1.5 * sensitivity) * sqrt (max (histVariance h) (1 / 10 ^ 8))"

text \<open>An engine that has heard nine silent ticks, with the default sensitivity.\<close>

definition quietEngine :: AudioEngine where
  "quietEngine = newAudioEngine\<lparr> energyHistory := replicate 9 0 \<rparr>"

section \<open>CrystalSphere\<close>

text \<open>\<^verbatim>\<open>export type EffectState = 'idle' | 'resonance' | 'prism' | 'rift' | 'spikes'\<close>\<close>

datatype EffectState = idle | resonance | prism | rift | spikes

text \<open>
  Vectors of the render library, as triples of coordinates, with the operations the
  class calls on them. \<^verbatim>\<open>normalize\<close> divides by the length, or by 1 when the
  length is 0.
\<close>

type_synonym Vector3 = "real \<times> real \<times> real"

fun add :: "Vector3 \<Rightarrow> Vector3 \<Rightarrow> Vector3" where
  "add (a, b, c) (x, y, z) = (a + x, b + y, c + z)"

fun multiplyScalar :: "Vector3 \<Rightarrow> real \<Rightarrow> Vector3" where
  "multiplyScalar (a, b, c) s = (a * s, b * s, c * s)"

fun vlength :: "Vector3 \<Rightarrow> real" where
  "vlength (a, b, c) = sqrt (a * a + b * b + c * c)"

definition normalizeV :: "Vector3 \<Rightarrow> Vector3" where
  "normalizeV v = multiplyScalar v (1 / (if vlength v = 0 then 1 else vlength v))"

text \<open>
  The instances of the four effect groups. Each record holds the \<^verbatim>\<open>userData\<close> of
  the instance and the material and transform values that the update functions write;
  geometry, colour and orientation stay with the render library.
\<close>

record Ring =
  ring_life :: real
  ring_delay :: real
  ring_scale :: real
  ring_opacity :: real

record Ray =
  ray_life :: real
  ray_phase :: real
  ray_opacity :: real

text \<open>
  A particle of a rift batch: entry i of the geometry's \<^verbatim>\<open>userData\<close> array
  together with entry i of its position attribute (both arrays have one entry per
  particle).
\<close>

record Particle =
  p_life :: real
  p_velocity :: Vector3
  p_rotationSpeed :: real
  p_pos :: Vector3

record RiftBatch =
  rift_particles :: "Particle list"
  rift_opacity :: real

record Spike =
  spike_life :: real
  spike_speed :: real
  spike_seed :: real
  spike_baseLen :: real
  spike_opacity :: real

text \<open>
  The state of a \<^verbatim>\<open>CrystalSphere\<close>. \<open>hasGroup\<close> says that \<^verbatim>\<open>group\<close> is not
  null. The four \<open>_children\<close> fields are the \<^verbatim>\<open>children\<close> arrays of
  \<^verbatim>\<open>effectGroups\<close>. \<open>applyThemeCalls\<close> counts the calls of
  \<^verbatim>\<open>applyTheme\<close>: the call recolours render objects only, and returns at once
  while the sphere has no energy core.
  \<open>randomCalls\<close> counts the values the class has taken from \<^verbatim>\<open>Math.random\<close>:
  the functions that draw take the sequence \<open>rnd\<close> of those values as a parameter.
\<close>

record CrystalSphere =
  hasGroup :: bool
  resonance_children :: "Ring list"
  prism_children :: "Ray list"
  rift_children :: "RiftBatch list"
  spikes_children :: "Spike list"
  bloomStrength :: real
  themeIndex :: nat
  activeEffect :: EffectState
  applyThemeCalls :: nat
  randomCalls :: nat

text \<open>The length of the array \<^verbatim>\<open>themes\<close>, which holds four themes.\<close>

definition themes_length :: nat where
  "themes_length = 4"

definition newCrystalSphere :: CrystalSphere where
  "newCrystalSphere =
     \<lparr> hasGroup = False, resonance_children = [], prism_children = [], rift_children = [],
       spikes_children = [], bloomStrength = 1.2, themeIndex = 0, activeEffect = idle,
       applyThemeCalls = 0, randomCalls = 0 \<rparr>"

definition applyTheme :: "CrystalSphere \<Rightarrow> CrystalSphere" where
  "applyTheme c = c\<lparr> applyThemeCalls := applyThemeCalls c + 1 \<rparr>"

definition init :: "CrystalSphere \<Rightarrow> CrystalSphere" where
  "init c = (if hasGroup c then c else applyTheme (c\<lparr> hasGroup := True \<rparr>))"

definition setThemeByEnergyInstrument :: "real \<Rightarrow> Instrument \<Rightarrow> CrystalSphere \<Rightarrow> CrystalSphere" where
  "setThemeByEnergyInstrument energy instrument c =
     (let idx0 = (0::nat);
          idx1 = (if instrument = bass then 0
                  else if instrument = guitar then 1
                  else if instrument = drums then 2
                  else idx0);
          idx = (if energy > 0.35 then (idx1 + 1) mod themes_length else idx1)
      in if idx \<noteq> themeIndex c then applyTheme (c\<lparr> themeIndex := idx \<rparr>) else c)"

text \<open>
  The theme selection as the specification words it: the base index comes from the
  instrument, and for \<open>none\<close> it is the current index.
\<close>

definition selectTheme_spec :: "real \<Rightarrow> Instrument \<Rightarrow> nat \<Rightarrow> nat" where
  "selectTheme_spec energy instrument cur =
     (let base = (case instrument of bass \<Rightarrow> 0 | guitar \<Rightarrow> 1 | drums \<Rightarrow> 2 | none \<Rightarrow> cur)
      in if energy > 0.35 then (base + 1) mod themes_length else base)"

text \<open>The same with the base index 0 for \<open>none\<close>.\<close>

definition selectTheme_code :: "real \<Rightarrow> Instrument \<Rightarrow> nat" where
  "selectTheme_code energy instrument =
     (let base = (case instrument of bass \<Rightarrow> 0 | guitar \<Rightarrow> 1 | drums \<Rightarrow> 2 | none \<Rightarrow> 0)
      in if energy > 0.35 then (base + 1) mod themes_length else base)"

definition clearAllEffects :: "CrystalSphere \<Rightarrow> CrystalSphere" where
  "clearAllEffects c =
     c\<lparr> resonance_children := [], prism_children := [], rift_children := [],
        spikes_children := [], activeEffect := idle \<rparr>"

definition isAnyEffectActive :: "CrystalSphere \<Rightarrow> bool" where
  "isAnyEffectActive c \<longleftrightarrow>
     length (resonance_children c) > 0 \<or> length (prism_children c) > 0
     \<or> length (rift_children c) > 0 \<or> length (spikes_children c) > 0"

text \<open>The emission helpers. Each loop adds one instance per index to the end of its group.\<close>

definition emitResonance :: "nat \<Rightarrow> CrystalSphere \<Rightarrow> CrystalSphere" where
  "emitResonance rings c =
     c\<lparr> resonance_children := resonance_children c @
          map (\<lambda>i. \<lparr> ring_life = 1, ring_delay = real i * 0.06, ring_scale = 0.1,
                     ring_opacity = 1 \<rparr>) [0 ..< rings] \<rparr>"

definition emitPrism :: "nat \<Rightarrow> CrystalSphere \<Rightarrow> CrystalSphere" where
  "emitPrism rays c =
     c\<lparr> prism_children := prism_children c @
          map (\<lambda>i. \<lparr> ray_life = 1, ray_phase = 0, ray_opacity = 0 \<rparr>) [0 ..< rays] \<rparr>"

text \<open>Particle i of a batch takes six random values, in the order of the source.\<close>

definition newParticle :: "(nat \<Rightarrow> real) \<Rightarrow> nat \<Rightarrow> Particle" where
  "newParticle rnd j =
     \<lparr> p_life = 1.2 + rnd j * 1.2,
       p_velocity = multiplyScalar
          (normalizeV (rnd (j + 1) - 0.5, rnd (j + 2) - 0.5, rnd (j + 3) - 0.5))
          (rnd (j + 4) * 3 + 1.5),
       p_rotationSpeed = (rnd (j + 5) - 0.5) * 0.04,
       p_pos = (0, 0, 0) \<rparr>"

definition emitRift :: "(nat \<Rightarrow> real) \<Rightarrow> nat \<Rightarrow> CrystalSphere \<Rightarrow> CrystalSphere" where
  "emitRift rnd count c =
     (let uD = map (\<lambda>i. newParticle rnd (randomCalls c + 6 * i)) [0 ..< count];
          neb = \<lparr> rift_particles = uD, rift_opacity = 1 \<rparr>
      in c\<lparr> rift_children := rift_children c @ [neb],
            randomCalls := randomCalls c + 6 * count \<rparr>)"

text \<open>Spike i takes three random values: for the length, the speed and the seed.\<close>

definition newSpike :: "(nat \<Rightarrow> real) \<Rightarrow> nat \<Rightarrow> real \<Rightarrow> Spike" where
  "newSpike rnd j high =
     (let len = 0.6 + rnd j * 1.1 + high * 0.8;
          speed = 0.35 + rnd (j + 1) * 1.0;
          seed = rnd (j + 2)
      in \<lparr> spike_life = 1.0, spike_speed = speed, spike_seed = seed, spike_baseLen = len,
           spike_opacity = 0.0 \<rparr>)"

definition createSpikes :: "(nat \<Rightarrow> real) \<Rightarrow> nat \<Rightarrow> real \<Rightarrow> real \<Rightarrow> real \<Rightarrow> CrystalSphere
    \<Rightarrow> CrystalSphere" where
  "createSpikes rnd count low mid high c =
     c\<lparr> spikes_children := spikes_children c @
          map (\<lambda>i. newSpike rnd (randomCalls c + 3 * i) high) [0 ..< count],
        randomCalls := randomCalls c + 3 * count \<rparr>"

definition triggerSpikesFromAudio :: "(nat \<Rightarrow> real) \<Rightarrow> real \<Rightarrow> real \<Rightarrow> real \<Rightarrow> CrystalSphere
    \<Rightarrow> CrystalSphere" where
  "triggerSpikesFromAudio rnd low mid high c =
     (let intensity = min 1 (low * 0.5 + mid * 0.8 + high * 1.0);
          count = nat \<lfloor>12 + intensity * 48\<rfloor>
      in createSpikes rnd count low mid high c)"

text \<open>\<^verbatim>\<open>triggerEffect\<close>; \<^verbatim>\<open>createSpikes(36)\<close> uses the default band values 0.2.\<close>

definition triggerEffect :: "(nat \<Rightarrow> real) \<Rightarrow> EffectState \<Rightarrow> CrystalSphere \<Rightarrow> CrystalSphere" where
  "triggerEffect rnd kind c =
     (if \<not> hasGroup c then c
      else
        let c1 = clearAllEffects c
        in case kind of
             resonance \<Rightarrow> (emitResonance 3 c1)\<lparr> bloomStrength := 1.3, activeEffect := resonance \<rparr>
           | prism \<Rightarrow> (emitPrism 120 c1)\<lparr> bloomStrength := 1.35, activeEffect := prism \<rparr>
           | rift \<Rightarrow> (emitRift rnd 2000 c1)\<lparr> bloomStrength := 1.6, activeEffect := rift \<rparr>
           | spikes \<Rightarrow> (createSpikes rnd 36 0.2 0.2 0.2 c1)
                         \<lparr> bloomStrength := 1.4, activeEffect := spikes \<rparr>
           | idle \<Rightarrow> c1)"

definition setExclusiveEffect :: "(nat \<Rightarrow> real) \<Rightarrow> EffectState \<Rightarrow> CrystalSphere \<Rightarrow> CrystalSphere" where
  "setExclusiveEffect rnd kind c =
     (if kind = idle then clearAllEffects c
      else if activeEffect c = kind \<and> isAnyEffectActive c then c
      else triggerEffect rnd kind c)"

definition getActiveEffect :: "CrystalSphere \<Rightarrow> EffectState" where
  "getActiveEffect c = activeEffect c"

text \<open>
  \<^verbatim>\<open>updateResonance\<close>. \<open>resonanceStep\<close> is the body of its loop for one ring:
  the ring it pushes to \<^verbatim>\<open>survivors\<close>, or \<open>None\<close> when the ring is disposed.
\<close>

definition resonanceStep :: "real \<Rightarrow> Ring \<Rightarrow> Ring option" where
  "resonanceStep dt w =
     (if ring_delay w > 0 then Some (w\<lparr> ring_delay := ring_delay w - dt \<rparr>)
      else
        let life = ring_life w - dt * 0.6;
            p = 1 - life;
            w' = w\<lparr> ring_life := life, ring_scale := 0.1 + p * 1.4,
                    ring_opacity := max 0 (sin (life * pi)) \<rparr>
        in if life > 0 then Some w' else None)"

definition updateResonance :: "real \<Rightarrow> CrystalSphere \<Rightarrow> CrystalSphere" where
  "updateResonance dt c =
     (if length (resonance_children c) = 0 then c
      else
        let survivors = List.map_filter (resonanceStep dt) (resonance_children c);
            c' = c\<lparr> resonance_children := survivors \<rparr>
        in if length survivors = 0 then c'\<lparr> bloomStrength := 1.2 \<rparr> else c')"

text \<open>
  \<^verbatim>\<open>updateRift\<close>. \<open>riftStep\<close> is the body of its loop for one particle. The
  library call \<^verbatim>\<open>vec.applyAxisAngle(axis, angle)\<close> is the parameter
  \<open>applyAxisAngle axis angle vec\<close>.
\<close>

definition riftStep :: "(Vector3 \<Rightarrow> real \<Rightarrow> Vector3 \<Rightarrow> Vector3) \<Rightarrow> real \<Rightarrow> Particle \<Rightarrow> Particle" where
  "riftStep applyAxisAngle dt pd =
     (let pd1 = pd\<lparr> p_life := p_life pd - dt \<rparr>
      in if p_life pd1 > 0
         then
           let vec = p_pos pd1;
               vec1 = add vec (multiplyScalar (p_velocity pd1) dt);
               vec2 = applyAxisAngle (p_velocity pd1) (p_rotationSpeed pd1) vec1
           in pd1\<lparr> p_pos := vec2 \<rparr>
         else pd1)"

definition updateRift :: "(Vector3 \<Rightarrow> real \<Rightarrow> Vector3 \<Rightarrow> Vector3) \<Rightarrow> real \<Rightarrow> CrystalSphere
    \<Rightarrow> CrystalSphere" where
  "updateRift applyAxisAngle dt c =
     (case rift_children c of
        [] \<Rightarrow> c
      | neb # others \<Rightarrow>
          let uArr = map (riftStep applyAxisAngle dt) (rift_particles neb);
              opacity = rift_opacity neb - dt * 0.4;
              neb' = \<lparr> rift_particles = uArr, rift_opacity = opacity \<rparr>
          in if opacity \<le> 0
             then c\<lparr> rift_children := others, bloomStrength := 1.2 \<rparr>
             else c\<lparr> rift_children := neb' # others \<rparr>)"

section \<open>SceneView\<close>

text \<open>\<^verbatim>\<open>chooseEffect\<close>; \<open>None\<close> is the \<^verbatim>\<open>null\<close> it returns last.\<close>

definition chooseEffect :: "real \<Rightarrow> real \<Rightarrow> real \<Rightarrow> real \<Rightarrow> bool \<Rightarrow> EffectState option" where
  "chooseEffect low mid high rms beat =
     (let energy = low * 0.45 + mid * 0.35 + high * 0.2 + rms * 0.3
      in if beat \<and> high > 0.55 then Some spikes
         else if high > 0.6 \<and> mid > 0.5 then Some prism
         else if mid > 0.55 \<and> low < 0.4 then Some resonance
         else if low > 0.55 then Some rift
         else if energy > 0.5 then Some prism
         else if energy > 0.35 then Some resonance
         else None)"

text \<open>
  The fields of \<^verbatim>\<open>SceneView\<close> that \<^verbatim>\<open>updateFromAudio\<close> reads and writes.
  \<open>crystal\<close> is \<open>None\<close> when the field is null.
\<close>

record SceneView =
  lastRms :: real
  lastLow :: real
  lastMid :: real
  lastHigh :: real
  currentInstrument :: Instrument
  crystal :: "CrystalSphere option"
  lastEffectSwitchAt :: real
  minHoldSeconds :: real

text \<open>
  The scene after its constructor has created and initialised the crystal sphere.
\<close>

definition newSceneView :: SceneView where
  "newSceneView =
     \<lparr> lastRms = 0, lastLow = 0, lastMid = 0, lastHigh = 0, currentInstrument = none,
       crystal = Some (init newCrystalSphere), lastEffectSwitchAt = 0, minHoldSeconds = 3.0 \<rparr>"

text \<open>
  The two emission statements that end the body of \<^verbatim>\<open>updateFromAudio\<close>, each as
  a function on the sphere: the re-triggering of spikes, and the emission that
  reinforces the active effect.
\<close>

definition spikesWhileActive :: "(nat \<Rightarrow> real) \<Rightarrow> real \<Rightarrow> real \<Rightarrow> real \<Rightarrow> bool \<Rightarrow> CrystalSphere
    \<Rightarrow> CrystalSphere" where
  "spikesWhileActive rnd low mid high beat c =
     (if getActiveEffect c = spikes \<and> (beat \<or> high > 0.5)
      then triggerSpikesFromAudio rnd low mid high c else c)"

definition reinforceActive :: "(nat \<Rightarrow> real) \<Rightarrow> real \<Rightarrow> real \<Rightarrow> real \<Rightarrow> bool \<Rightarrow> CrystalSphere
    \<Rightarrow> CrystalSphere" where
  "reinforceActive rnd low mid high beat c =
     (let active = getActiveEffect c
      in if active = resonance \<and> (beat \<or> mid > 0.55) then emitResonance 2 c
         else if active = prism \<and> high > 0.55 then emitPrism 60 c
         else if active = rift \<and> low > 0.55 then emitRift rnd 900 c
         else c)"

text \<open>
  \<^verbatim>\<open>updateFromAudio\<close>. \<open>now\<close> is the value of \<^verbatim>\<open>performance.now() * 0.001\<close>
  at the call, and \<open>beat\<close> is the optional flag, false when absent. The pair
  \<open>(c2, sv2)\<close> is the sphere and the scene after the statement that switches the
  effect. The last statement hands the bloom strength to the post-processing object,
  which is not part of the scene's state here.
\<close>

definition updateFromAudio :: "real \<Rightarrow> (nat \<Rightarrow> real) \<Rightarrow> real \<Rightarrow> real \<Rightarrow> real \<Rightarrow> real \<Rightarrow> bool
    \<Rightarrow> SceneView \<Rightarrow> SceneView" where
  "updateFromAudio now rnd rms low mid high beat sv =
     (let sv1 = sv\<lparr> lastRms := rms, lastLow := low, lastMid := mid, lastHigh := high \<rparr>
      in case crystal sv1 of
           None \<Rightarrow> sv1
         | Some c \<Rightarrow>
             let energy = min 1 (low * 0.5 + mid * 0.3 + high * 0.2 + rms * 0.3);
                 c1 = setThemeByEnergyInstrument energy (currentInstrument sv1) c;
                 chosen = chooseEffect low mid high (lastRms sv1) beat;
                 canSwitch = now - lastEffectSwitchAt sv1 > minHoldSeconds sv1;
                 (c2, sv2) =
                   (case chosen of
                      None \<Rightarrow> (c1, sv1)
                    | Some kind \<Rightarrow>
                        if kind \<noteq> getActiveEffect c1
                        then (if canSwitch
                              then (setExclusiveEffect rnd kind c1,
                                    sv1\<lparr> lastEffectSwitchAt := now \<rparr>)
                              else (c1, sv1))
                        else (c1, sv1));
                 c3 = spikesWhileActive rnd low mid high beat c2;
                 c4 = reinforceActive rnd low mid high beat c3
             in sv2\<lparr> crystal := Some c4 \<rparr>)"

text \<open>One audio frame as it reaches \<^verbatim>\<open>updateFromAudio\<close>, with the clock value.\<close>

record Frame =
  f_now :: real
  f_rms :: real
  f_low :: real
  f_mid :: real
  f_high :: real
  f_beat :: bool

definition updateFrame :: "(nat \<Rightarrow> real) \<Rightarrow> Frame \<Rightarrow> SceneView \<Rightarrow> SceneView" where
  "updateFrame rnd f sv =
     updateFromAudio (f_now f) rnd (f_rms f) (f_low f) (f_mid f) (f_high f) (f_beat f) sv"

text \<open>The active effect of the scene's sphere (\<open>idle\<close> when there is no sphere).\<close>

definition activeKind :: "SceneView \<Rightarrow> EffectState" where
  "activeKind sv = (case crystal sv of None \<Rightarrow> idle | Some c \<Rightarrow> getActiveEffect c)"

text \<open>
  The clock values of the frames at which the active effect kind after the call differs
  from the one before it.
\<close>

fun kindSwitches :: "(nat \<Rightarrow> real) \<Rightarrow> SceneView \<Rightarrow> Frame list \<Rightarrow> real list" where
  "kindSwitches rnd sv [] = []"
| "kindSwitches rnd sv (f # fs) =
     (let sv' = updateFrame rnd f sv
      in (if activeKind sv' \<noteq> activeKind sv then [f_now f] else []) @ kindSwitches rnd sv' fs)"

text \<open>A scene is ready when its sphere exists and has been initialised.\<close>

definition ready :: "SceneView \<Rightarrow> bool" where
  "ready sv = (case crystal sv of None \<Rightarrow> False | Some c \<Rightarrow> hasGroup c)"

text \<open>
  The priority ladder as the specification words it: a list of rules, each a condition
  with the kind it selects, read from the top; the first rule whose condition holds
  gives the result, and no rule gives no change.
\<close>

definition effectLadder :: "real \<Rightarrow> real \<Rightarrow> real \<Rightarrow> real \<Rightarrow> bool \<Rightarrow> (bool \<times> EffectState) list" where
  "effectLadder low mid high rms beat =
     (let e = 0.45 * low + 0.35 * mid + 0.2 * high + 0.3 * rms
      in [(beat \<and> high > 0.55, spikes),
          (high > 0.6 \<and> mid > 0.5, prism),
          (mid > 0.55 \<and> low < 0.4, resonance),
          (low > 0.55, rift),
          (e > 0.5, prism),
          (e > 0.35, resonance)])"

definition firstMatch :: "(bool \<times> EffectState) list \<Rightarrow> EffectState option" where
  "firstMatch rules = map_option snd (find fst rules)"

text \<open>
  A frame applies a switch when the chosen kind exists, differs from the active kind
  and the hold interval has passed.
\<close>

definition switchApplied :: "Frame \<Rightarrow> SceneView \<Rightarrow> bool" where
  "switchApplied f sv \<longleftrightarrow>
     (case chooseEffect (f_low f) (f_mid f) (f_high f) (f_rms f) (f_beat f) of
        None \<Rightarrow> False
      | Some kind \<Rightarrow> kind \<noteq> activeKind sv \<and> f_now f - lastEffectSwitchAt sv > minHoldSeconds sv)"

text \<open>Inputs for the examples below.\<close>

definition guitarCall :: "real \<Rightarrow> Call" where
  "guitarCall t = \<lparr> c_time = t, c_rms = 0.3, c_low = 0.2, c_mid = 0.7, c_high = 0.2, c_beat = False \<rparr>"

definition bassCall :: "real \<Rightarrow> Call" where
  "bassCall t = \<lparr> c_time = t, c_rms = 0.3, c_low = 0.6, c_mid = 0.2, c_high = 0.1, c_beat = False \<rparr>"

definition riftFrame :: "real \<Rightarrow> Frame" where
  "riftFrame t = \<lparr> f_now = t, f_rms = 0.3, f_low = 0.6, f_mid = 0.2, f_high = 0.1, f_beat = False \<rparr>"

definition prismFrame :: "real \<Rightarrow> Frame" where
  "prismFrame t = \<lparr> f_now = t, f_rms = 0.3, f_low = 0.2, f_mid = 0.6, f_high = 0.7, f_beat = False \<rparr>"

definition halves :: "nat \<Rightarrow> real" where
  "halves n = 1 / 2"

text \<open>A sphere on which a loud guitar frame has selected theme 2.\<close>

definition guitarSphere :: CrystalSphere where
  "guitarSphere = setThemeByEnergyInstrument 0.5 guitar (init newCrystalSphere)"

text \<open>
  A sequence of random values: of every six values the second and the sixth are 3/4 and
  the others 1/2. A particle emitted from it has the life 9/5, the velocity (3, 0, 0)
  and the rotation speed 1/100, and starts at the origin.
\<close>

definition riftRandom :: "nat \<Rightarrow> real" where
  "riftRandom n = (if n mod 6 = 1 \<or> n mod 6 = 5 then 3 / 4 else 1 / 2)"

definition emittedParticle :: Particle where
  "emittedParticle =
     \<lparr> p_life = 9 / 5, p_velocity = (3, 0, 0), p_rotationSpeed = 1 / 100, p_pos = (0, 0, 0) \<rparr>"

text \<open>
  The sphere of the new scene after the calls that \<^verbatim>\<open>updateFromAudio\<close> makes on
  it for the rift frame (low 0.6) at 4 s: the theme selection with the energy 0.47, the
  switch to the rift, and the reinforcing emission of 900 particles.
\<close>

definition riftedSphere :: CrystalSphere where
  "riftedSphere =
     emitRift riftRandom 900
       (triggerEffect riftRandom rift
         (setThemeByEnergyInstrument 0.47 none (init newCrystalSphere)))"


section \<open>Properties of the instrument classifier\<close>

lemma updateCall_cases:
  "updateCall k c =
     (let proposed = classifyInstant (c_rms k) (c_low k) (c_mid k) (c_high k) (c_beat k)
      in if proposed \<noteq> current c \<and> c_time k - lastSwitchAt c \<ge> holdSeconds c
         then (proposed, c\<lparr> current := proposed, lastSwitchAt := c_time k \<rparr>)
         else (current c, c))"
  by (simp add: updateCall_def update_def Let_def)

lemma updateCall_hold: "holdSeconds (snd (updateCall k c)) = holdSeconds c"
  by (simp add: updateCall_cases Let_def)

text \<open>Every later change of the label lies a full hold interval after the last switch.\<close>

lemma labelChanges_after_last:
  "holdSeconds c = h \<Longrightarrow> 0 \<le> h \<Longrightarrow> \<forall>x \<in> set (labelChanges c ks). x - lastSwitchAt c \<ge> h"
proof (induction ks arbitrary: c)
  case Nil
  then show ?case by simp
next
  case (Cons k ks)
  obtain l c' where step: "updateCall k c = (l, c')" by (cases "updateCall k c")
  have hold': "holdSeconds c' = h" using updateCall_hold[of k c] step Cons.prems(1) by simp
  have IH: "\<forall>x \<in> set (labelChanges c' ks). x - lastSwitchAt c' \<ge> h"
    using Cons.IH[OF hold' Cons.prems(2)] .
  show ?case
  proof (cases "l \<noteq> current c")
    case True
    then have sw: "c_time k - lastSwitchAt c \<ge> h" and last': "lastSwitchAt c' = c_time k"
      using step Cons.prems(1) by (auto simp: updateCall_cases Let_def split: if_splits)
    show ?thesis using True step IH sw last' Cons.prems(2) by fastforce
  next
    case False
    then have "lastSwitchAt c' = lastSwitchAt c"
      using step by (auto simp: updateCall_cases Let_def split: if_splits)
    then show ?thesis using False step IH by simp
  qed
qed

lemma labelChanges_spaced:
  "holdSeconds c = h \<Longrightarrow> 0 \<le> h \<Longrightarrow> sorted_wrt (\<lambda>a b. b - a \<ge> h) (labelChanges c ks)"
proof (induction ks arbitrary: c)
  case Nil
  then show ?case by simp
next
  case (Cons k ks)
  obtain l c' where step: "updateCall k c = (l, c')" by (cases "updateCall k c")
  have hold': "holdSeconds c' = h" using updateCall_hold[of k c] step Cons.prems(1) by simp
  have IH: "sorted_wrt (\<lambda>a b. b - a \<ge> h) (labelChanges c' ks)"
    using Cons.IH[OF hold' Cons.prems(2)] .
  show ?case
  proof (cases "l \<noteq> current c")
    case True
    then have last': "lastSwitchAt c' = c_time k"
      using step by (auto simp: updateCall_cases Let_def split: if_splits)
    have "\<forall>x \<in> set (labelChanges c' ks). x - c_time k \<ge> h"
      using labelChanges_after_last[OF hold' Cons.prems(2), of ks] last' by simp
    then show ?thesis using True step IH by simp
  next
    case False
    then show ?thesis using step IH by simp
  qed
qed

text \<open>
  Times that lie pairwise at least d apart: a window that is closed on the left and open
  on the right, of length d, holds at most one of them. When they lie more than d apart,
  the same is true of the closed window.
\<close>

lemma spaced_window_ge:
  fixes xs :: "real list"
  shows "sorted_wrt (\<lambda>a b. b - a \<ge> d) xs \<Longrightarrow>
         length (filter (\<lambda>t. w \<le> t \<and> t < w + d) xs) \<le> 1"
proof (induction xs)
  case Nil
  then show ?case by simp
next
  case (Cons x xs)
  show ?case
  proof (cases "w \<le> x \<and> x < w + d")
    case True
    have "filter (\<lambda>t. w \<le> t \<and> t < w + d) xs = []"
      using Cons.prems True by (auto simp: filter_empty_conv)
    then show ?thesis using True by simp
  next
    case False
    then show ?thesis using Cons by auto
  qed
qed

lemma spaced_window_gt:
  fixes xs :: "real list"
  shows "sorted_wrt (\<lambda>a b. b - a > d) xs \<Longrightarrow>
         length (filter (\<lambda>t. w \<le> t \<and> t \<le> w + d) xs) \<le> 1"
proof (induction xs)
  case Nil
  then show ?case by simp
next
  case (Cons x xs)
  show ?case
  proof (cases "w \<le> x \<and> x \<le> w + d")
    case True
    have "filter (\<lambda>t. w \<le> t \<and> t \<le> w + d) xs = []"
      using Cons.prems True by (auto simp: filter_empty_conv)
    then show ?thesis using True by simp
  next
    case False
    then show ?thesis using Cons by auto
  qed
qed

lemma labels_before_hold:
  "\<forall>k \<in> set ks. c_time k < 5 \<Longrightarrow>
   labels (newInstrumentClassifier 5) ks = replicate (length ks) none"
proof (induction ks)
  case Nil
  then show ?case by simp
next
  case (Cons k ks)
  have "updateCall k (newInstrumentClassifier 5) = (none, newInstrumentClassifier 5)"
    using Cons.prems by (simp add: updateCall_cases newInstrumentClassifier_def Let_def)
  then show ?case using Cons by simp
qed

text \<open>
  Claim C6. With the hold of 5 seconds, a call replaces the label exactly when the
  proposed label differs from the current one and at least 5 seconds have passed since
  the last accepted switch, and it then records the time of the call; otherwise label
  and state stay as they are. Over any sequence of calls, two changes of the returned
  label lie at least 5 seconds apart, so that a window of 5 seconds (closed on the left,
  open on the right) holds at most one change.
\<close>

theorem classifier_label_hold:
  assumes "holdSeconds c = 5"
  shows "updateCall k c =
           (if classifyInstant (c_rms k) (c_low k) (c_mid k) (c_high k) (c_beat k) \<noteq> current c
               \<and> c_time k - lastSwitchAt c \<ge> 5
            then (classifyInstant (c_rms k) (c_low k) (c_mid k) (c_high k) (c_beat k),
                  c\<lparr> current := classifyInstant (c_rms k) (c_low k) (c_mid k) (c_high k) (c_beat k),
                     lastSwitchAt := c_time k \<rparr>)
            else (current c, c))
         \<and> sorted_wrt (\<lambda>a b. b - a \<ge> 5) (labelChanges c ks)
         \<and> (\<forall>w. length (filter (\<lambda>t. w \<le> t \<and> t < w + 5) (labelChanges c ks)) \<le> 1)"
proof -
  have sp: "sorted_wrt (\<lambda>a b. b - a \<ge> 5) (labelChanges c ks)"
    using labelChanges_spaced[OF assms, of ks] by simp
  have "\<forall>w. length (filter (\<lambda>t. w \<le> t \<and> t < w + 5) (labelChanges c ks)) \<le> 1"
    using spaced_window_ge[OF sp] by blast
  then show ?thesis using sp assms by (simp add: updateCall_cases Let_def)
qed

text \<open>
  The theorem at a fresh classifier and three calls: a guitar frame at 6 s, then bass
  frames at 8 s and at 11 s. The label changes at 6 s and at 11 s.
\<close>

lemma labelChanges_example:
  "labelChanges (newInstrumentClassifier 5) [guitarCall 6, bassCall 8, bassCall 11] = [6, 11]"
  by (simp add: updateCall_cases newInstrumentClassifier_def guitarCall_def bassCall_def
        classifyInstant_def Let_def)

theorem classifier_label_hold_witness:
  "holdSeconds (newInstrumentClassifier 5) = 5
   \<and> labelChanges (newInstrumentClassifier 5) [guitarCall 6, bassCall 8, bassCall 11] = [6, 11]
   \<and> sorted_wrt (\<lambda>a b. b - a \<ge> 5)
        (labelChanges (newInstrumentClassifier 5) [guitarCall 6, bassCall 8, bassCall 11])
   \<and> length (filter (\<lambda>t. 6 \<le> t \<and> t < 6 + 5)
        (labelChanges (newInstrumentClassifier 5) [guitarCall 6, bassCall 8, bassCall 11])) \<le> 1"
proof -
  have h: "holdSeconds (newInstrumentClassifier 5) = 5"
    by (simp add: newInstrumentClassifier_def)
  from classifier_label_hold[OF h, of "guitarCall 6" "[guitarCall 6, bassCall 8, bassCall 11]"]
  show ?thesis using h labelChanges_example by blast
qed

text \<open>
  Claim C10. A classifier constructed with the hold of 5 seconds starts with the label
  \<open>none\<close> and the switch time 0, so a call at a time below 5 cannot pass the hold test:
  every call of a sequence of calls at times below 5 returns \<open>none\<close>, whatever the
  audio features are.
\<close>

theorem fresh_classifier_none:
  assumes "\<forall>k \<in> set ks. c_time k < 5"
  shows "labels (newInstrumentClassifier 5) ks = replicate (length ks) none
         \<and> current (newInstrumentClassifier 5) = none
         \<and> lastSwitchAt (newInstrumentClassifier 5) = 0"
  using labels_before_hold[OF assms] by (simp add: newInstrumentClassifier_def)

theorem fresh_classifier_none_witness:
  "c_time (guitarCall 1) < 5 \<and> c_time (bassCall 4.9) < 5
   \<and> labels (newInstrumentClassifier 5) [guitarCall 1, bassCall 4.9] = [none, none]"
proof -
  have h: "\<forall>k \<in> set [guitarCall 1, bassCall 4.9]. c_time k < 5"
    by (simp add: guitarCall_def bassCall_def)
  from fresh_classifier_none[OF h] show ?thesis using h by simp
qed

section \<open>Properties of the feature extraction and the beat detector\<close>

lemma foldl_add_sum:
  fixes a :: real
  shows "foldl (\<lambda>acc x. acc + f x) a xs = a + sum_list (map f xs)"
  by (induction xs arbitrary: a) simp_all

lemma averageArray_histMean: "averageArray h = histMean h"
  using foldl_add_sum[of "\<lambda>v. v" 0 h] by (simp add: averageArray_def histMean_def)

lemma varianceLoop_histVariance: "varianceLoop (histMean h) h = histVariance h"
  using foldl_add_sum[of "\<lambda>x. (x - histMean h) * (x - histMean h)" 0 h]
  by (simp add: varianceLoop_def histVariance_def Let_def power2_eq_square)

lemma detectBeat_fst:
  "fst (detectBeat energy nowSec e) \<longleftrightarrow>
     (8 \<le> length (pushEnergy energy e)
      \<and> energy > beatThreshold (beatSensitivity e) (pushEnergy energy e)
      \<and> nowSec - lastBeatAt e > 0.12)"
  by (auto simp: detectBeat_def Let_def beatThreshold_def averageArray_histMean
        varianceLoop_histVariance)

lemma detectBeat_snd:
  "snd (detectBeat energy nowSec e) =
     e\<lparr> energyHistory := pushEnergy energy e,
        lastBeatAt := (if fst (detectBeat energy nowSec e) then nowSec else lastBeatAt e) \<rparr>"
  by (auto simp: detectBeat_def Let_def)

lemma pushEnergy_bounded:
  "length (energyHistory e) \<le> maxEnergyHistory e \<Longrightarrow>
   length (pushEnergy energy e) \<le> maxEnergyHistory e"
  by (auto simp: pushEnergy_def Let_def)

text \<open>The statistics of nine silent samples followed by the sample 1.\<close>

lemma push_quiet: "pushEnergy 1 quietEngine = replicate 9 0 @ [1]"
  by (simp add: pushEnergy_def quietEngine_def newAudioEngine_def Let_def)

lemma mean_quiet: "histMean (replicate 9 0 @ [1]) = 1 / 10"
  by (simp add: histMean_def sum_list_replicate)

lemma var_quiet: "histVariance (replicate 9 0 @ [1]) = 9 / 100"
  by (simp add: histVariance_def mean_quiet power2_eq_square sum_list_replicate)

lemma sqrt_9_100: "sqrt (9 / 100) = 3 / 10"
  by (rule real_sqrt_unique) (simp_all add: power2_eq_square)

lemma thr_quiet: "beatThreshold (beatSensitivity quietEngine) (replicate 9 0 @ [1]) = 43 / 100"
proof -
  have "beatSensitivity quietEngine = 0.6" by (simp add: quietEngine_def newAudioEngine_def)
  then show ?thesis
    by (simp add: beatThreshold_def mean_quiet var_quiet sqrt_9_100)
qed

lemma pushEnergy_unfold:
  "pushEnergy energy e =
     (if length (energyHistory e) < maxEnergyHistory e then energyHistory e @ [energy]
      else tl (energyHistory e @ [energy]))"
  by (auto simp: pushEnergy_def Let_def)

lemma pushEnergy_last:
  "0 < maxEnergyHistory e \<Longrightarrow> pushEnergy energy e \<noteq> [] \<and> last (pushEnergy energy e) = energy"
  by (cases "energyHistory e") (auto simp: pushEnergy_unfold)

lemma pushEnergy_evict:
  "length (energyHistory e) = maxEnergyHistory e \<Longrightarrow> 0 < maxEnergyHistory e \<Longrightarrow>
   pushEnergy energy e = tl (energyHistory e) @ [energy]"
  by (cases "energyHistory e") (auto simp: pushEnergy_unfold)

text \<open>
  Claim C1, as amended. Let h be the history after the sample has been pushed: the old
  history with the sample appended, without its oldest entry when the old history was
  already full. Then h is the history that \<^verbatim>\<open>detectBeat\<close> leaves, its last entry is the
  sample, and a beat is reported exactly when h holds at least 8 samples, the energy is
  above mean + k * stddev (mean and population variance taken over h, stddev the root of
  the larger of the variance and 1e-8, k = 2.0 - 1.5 * sensitivity) and more than 0.12
  seconds have passed since the recorded time of the last beat. The recorded time
  becomes the time of the call exactly when a beat is reported, the history stays within
  its bound, and the setter clamps the sensitivity to the interval from 0 to 1.
\<close>

theorem detectBeat_fires_iff:
  assumes h: "h = (if length (energyHistory e) < maxEnergyHistory e
                   then energyHistory e @ [energy]
                   else tl (energyHistory e @ [energy]))"
    and m: "m = sum_list h / real (length h)"
    and v: "v = (\<Sum>x\<leftarrow>h. (x - m)\<^sup>2) / real (length h)"
    and k: "k = 2.0 - 1.5 * beatSensitivity e"
  shows "energyHistory (snd (detectBeat energy nowSec e)) = h
   \<and> (fst (detectBeat energy nowSec e) \<longleftrightarrow>
        (8 \<le> length h \<and> energy > m + k * sqrt (max v (1 / 10 ^ 8))
         \<and> nowSec - lastBeatAt e > 0.12))
   \<and> lastBeatAt (snd (detectBeat energy nowSec e)) =
        (if fst (detectBeat energy nowSec e) then nowSec else lastBeatAt e)
   \<and> beatSensitivity (snd (detectBeat energy nowSec e)) = beatSensitivity e
   \<and> maxEnergyHistory (snd (detectBeat energy nowSec e)) = maxEnergyHistory e
   \<and> (0 < maxEnergyHistory e \<longrightarrow> h \<noteq> [] \<and> last h = energy)
   \<and> (length (energyHistory e) = maxEnergyHistory e \<and> 0 < maxEnergyHistory e \<longrightarrow>
        h = tl (energyHistory e) @ [energy])
   \<and> (length (energyHistory e) \<le> maxEnergyHistory e \<longrightarrow> length h \<le> maxEnergyHistory e)
   \<and> beatSensitivity (setBeatSensitivity s e) = max 0 (min 1 s)
   \<and> 0 \<le> beatSensitivity (setBeatSensitivity s e)
   \<and> beatSensitivity (setBeatSensitivity s e) \<le> 1"
proof -
  have p: "pushEnergy energy e = h" by (simp only: h pushEnergy_unfold)
  have t: "beatThreshold (beatSensitivity e) h = m + k * sqrt (max v (1 / 10 ^ 8))"
    by (simp add: beatThreshold_def histMean_def histVariance_def m v k)
  have f: "fst (detectBeat energy nowSec e) \<longleftrightarrow>
        (8 \<le> length h \<and> energy > m + k * sqrt (max v (1 / 10 ^ 8))
         \<and> nowSec - lastBeatAt e > 0.12)"
    using detectBeat_fst[of energy nowSec e] by (simp only: p t)
  have s: "snd (detectBeat energy nowSec e) =
     e\<lparr> energyHistory := h,
        lastBeatAt := (if fst (detectBeat energy nowSec e) then nowSec else lastBeatAt e) \<rparr>"
    using detectBeat_snd[of energy nowSec e] by (simp only: p)
  have l: "0 < maxEnergyHistory e \<longrightarrow> h \<noteq> [] \<and> last h = energy"
    using pushEnergy_last[of e energy] by (simp only: p) blast
  have ev: "length (energyHistory e) = maxEnergyHistory e \<and> 0 < maxEnergyHistory e \<longrightarrow>
        h = tl (energyHistory e) @ [energy]"
    using pushEnergy_evict[of e energy] by (simp only: p) blast
  have b: "length (energyHistory e) \<le> maxEnergyHistory e \<longrightarrow> length h \<le> maxEnergyHistory e"
    using pushEnergy_bounded[of e energy] by (simp only: p) blast
  have c: "beatSensitivity (setBeatSensitivity s e) = max 0 (min 1 s)"
    by (simp add: setBeatSensitivity_def)
  have s1: "energyHistory (snd (detectBeat energy nowSec e)) = h"
    "lastBeatAt (snd (detectBeat energy nowSec e)) =
        (if fst (detectBeat energy nowSec e) then nowSec else lastBeatAt e)"
    "beatSensitivity (snd (detectBeat energy nowSec e)) = beatSensitivity e"
    "maxEnergyHistory (snd (detectBeat energy nowSec e)) = maxEnergyHistory e"
    by (subst s, simp)+
  have c01: "0 \<le> beatSensitivity (setBeatSensitivity s e)"
    "beatSensitivity (setBeatSensitivity s e) \<le> 1"
    by (simp_all add: c)
  show ?thesis using s1 f l ev b c c01 by blast
qed

text \<open>
  The theorem at the engine that has heard nine silent ticks, with the sample 1 at the
  time 0.5: the history becomes the nine zeros and the 1, with mean 1/10 and variance
  9/100, so the threshold is 1/10 + 11/10 * 3/10 = 0.43 and a beat is reported; the time
  0.5 is recorded, and a sensitivity of 2 is clamped to 1.
\<close>

theorem detectBeat_fires_iff_witness:
  "replicate 9 0 @ [1] =
     (if length (energyHistory quietEngine) < maxEnergyHistory quietEngine
      then energyHistory quietEngine @ [1] else tl (energyHistory quietEngine @ [1]))
   \<and> (1 / 10 :: real) = sum_list (replicate 9 0 @ [1]) / real (length (replicate 9 (0 :: real) @ [1]))
   \<and> (9 / 100 :: real) =
       (\<Sum>x\<leftarrow>replicate 9 0 @ [1]. (x - 1 / 10)\<^sup>2) / real (length (replicate 9 (0 :: real) @ [1]))
   \<and> (11 / 10 :: real) = 2.0 - 1.5 * beatSensitivity quietEngine
   \<and> energyHistory (snd (detectBeat 1 0.5 quietEngine)) = replicate 9 0 @ [1]
   \<and> fst (detectBeat 1 0.5 quietEngine)
   \<and> lastBeatAt (snd (detectBeat 1 0.5 quietEngine)) = 0.5
   \<and> last (replicate 9 0 @ [1]) = (1 :: real)
   \<and> length (replicate 9 (0 :: real) @ [1]) \<le> maxEnergyHistory quietEngine
   \<and> beatSensitivity (setBeatSensitivity 2 quietEngine) = 1"
proof -
  have q: "energyHistory quietEngine = replicate 9 0" "maxEnergyHistory quietEngine = 43"
    "lastBeatAt quietEngine = 0" "beatSensitivity quietEngine = 0.6"
    by (simp_all add: quietEngine_def newAudioEngine_def)
  have h: "replicate 9 0 @ [1] =
     (if length (energyHistory quietEngine) < maxEnergyHistory quietEngine
      then energyHistory quietEngine @ [1] else tl (energyHistory quietEngine @ [1]))"
    by (simp add: q)
  have m: "(1 / 10 :: real) = sum_list (replicate 9 0 @ [1]) / real (length (replicate 9 (0 :: real) @ [1]))"
    by (simp add: sum_list_replicate)
  have v: "(9 / 100 :: real) =
       (\<Sum>x\<leftarrow>replicate 9 0 @ [1]. (x - 1 / 10)\<^sup>2) / real (length (replicate 9 (0 :: real) @ [1]))"
    by (simp add: sum_list_replicate power2_eq_square)
  have k: "(11 / 10 :: real) = 2.0 - 1.5 * beatSensitivity quietEngine"
    by (simp add: q)
  have t: "(1 :: real) > 1 / 10 + 11 / 10 * sqrt (max (9 / 100) (1 / 10 ^ 8))"
    by (simp add: sqrt_9_100)
  note T = detectBeat_fires_iff[OF h m v k, where nowSec = "0.5" and s = 2]
  have f: "fst (detectBeat 1 0.5 quietEngine)"
    using T[THEN conjunct2, THEN conjunct1] t by (simp add: q)
  have l: "lastBeatAt (snd (detectBeat 1 0.5 quietEngine)) = 0.5"
    using T[THEN conjunct2, THEN conjunct2, THEN conjunct1] f by simp
  have c: "beatSensitivity (setBeatSensitivity 2 quietEngine) = 1"
    using T by simp
  show ?thesis
    using h m v k T[THEN conjunct1] f l c by (simp add: q)
qed

text \<open>
  The claim as it is worded asks for at least 0.12 seconds. At the engine above, the
  sample 1 at the time 0.12 is pushed, the history of ten samples has the threshold
  0.43 below the energy 1, exactly 0.12 seconds have passed since the recorded time 0,
  and \<^verbatim>\<open>detectBeat\<close> reports no beat.
\<close>

theorem beat_debounce_boundary_counterexample:
  "energyHistory (snd (detectBeat 1 0.12 quietEngine)) = replicate 9 0 @ [1]
   \<and> 8 \<le> length (replicate 9 (0 :: real) @ [1])
   \<and> histMean (replicate 9 0 @ [1]) = 1 / 10
   \<and> histVariance (replicate 9 0 @ [1]) = 9 / 100
   \<and> 1 / 10 + (2.0 - 1.5 * beatSensitivity quietEngine) * sqrt (max (9 / 100) (1 / 10 ^ 8))
       = 43 / 100
   \<and> (1 :: real) > 43 / 100
   \<and> 0.12 - lastBeatAt quietEngine \<ge> 0.12
   \<and> \<not> fst (detectBeat 1 0.12 quietEngine)"
proof -
  have q: "lastBeatAt quietEngine = 0" "beatSensitivity quietEngine = 0.6"
    by (simp_all add: quietEngine_def newAudioEngine_def)
  have h: "energyHistory (snd (detectBeat 1 0.12 quietEngine)) = replicate 9 0 @ [1]"
    by (subst detectBeat_snd) (simp add: push_quiet)
  have n: "\<not> fst (detectBeat 1 0.12 quietEngine)"
    by (simp add: detectBeat_fst q)
  show ?thesis
    using h n by (simp add: q mean_quiet var_quiet sqrt_9_100)
qed

text \<open>
  Claim C3. For empty buffers the three band values are 0, but the RMS proxy and the
  instantaneous energy are NaN: both functions divide their zero sum by the length 0.
\<close>

theorem empty_buffers_rms_energy_NaN:
  "computeRmsFromFreq [] = NaN
   \<and> computeInstantEnergy [] = NaN
   \<and> computeBands [] = \<lparr> bands_low = Num 0, bands_mid = Num 0, bands_high = Num 0 \<rparr>"
  by (simp add: computeRmsFromFreq_def computeInstantEnergy_def computeBands_def average_def
        jsDiv_def jsSqrt_def)

text \<open>On a buffer that is not empty both functions return a finite number.\<close>

lemma computeInstantEnergy_finite:
  "timeData \<noteq> [] \<Longrightarrow> \<exists>x. computeInstantEnergy timeData = Num x"
  by (simp add: computeInstantEnergy_def jsDiv_def)

lemma sumSquares_nonneg:
  fixes a :: real
  shows "0 \<le> a \<Longrightarrow> 0 \<le> foldl (\<lambda>acc b. let v = byte b / 255 in acc + v * v) a freq"
  by (induction freq arbitrary: a) (simp_all add: Let_def)

lemma computeRmsFromFreq_finite:
  assumes "freq \<noteq> []"
  shows "\<exists>x. computeRmsFromFreq freq = Num x"
proof -
  define S where "S = foldl (\<lambda>acc b. let v = byte b / 255 in acc + v * v) 0 freq"
  have "0 \<le> S" unfolding S_def by (rule sumSquares_nonneg) simp
  then have "\<not> S / real (length freq) < 0" by (simp add: not_less)
  moreover have "computeRmsFromFreq freq = jsSqrt (jsDiv S (real (length freq)))"
    by (simp only: computeRmsFromFreq_def S_def Let_def)
  ultimately show ?thesis
    using assms by (simp add: jsDiv_def jsSqrt_def)
qed

section \<open>Properties of the crystal sphere\<close>

text \<open>What each operation does to the active effect and to the group flag.\<close>

lemma setTheme_fields:
  "activeEffect (setThemeByEnergyInstrument e i c) = activeEffect c"
  "hasGroup (setThemeByEnergyInstrument e i c) = hasGroup c"
  by (simp_all add: setThemeByEnergyInstrument_def applyTheme_def Let_def)

lemma emitResonance_fields:
  "activeEffect (emitResonance n c) = activeEffect c"
  "hasGroup (emitResonance n c) = hasGroup c"
  by (simp_all add: emitResonance_def)

lemma emitPrism_fields:
  "activeEffect (emitPrism n c) = activeEffect c"
  "hasGroup (emitPrism n c) = hasGroup c"
  by (simp_all add: emitPrism_def)

lemma emitRift_fields:
  "activeEffect (emitRift rnd n c) = activeEffect c"
  "hasGroup (emitRift rnd n c) = hasGroup c"
  by (simp_all add: emitRift_def Let_def)

lemma createSpikes_fields:
  "activeEffect (createSpikes rnd n lo mi hi c) = activeEffect c"
  "hasGroup (createSpikes rnd n lo mi hi c) = hasGroup c"
  by (simp_all add: createSpikes_def)

lemma triggerSpikes_fields:
  "activeEffect (triggerSpikesFromAudio rnd lo mi hi c) = activeEffect c"
  "hasGroup (triggerSpikesFromAudio rnd lo mi hi c) = hasGroup c"
  by (simp_all add: triggerSpikesFromAudio_def Let_def createSpikes_fields)

lemma clearAllEffects_fields:
  "activeEffect (clearAllEffects c) = idle"
  "hasGroup (clearAllEffects c) = hasGroup c"
  "resonance_children (clearAllEffects c) = []"
  "prism_children (clearAllEffects c) = []"
  "rift_children (clearAllEffects c) = []"
  "spikes_children (clearAllEffects c) = []"
  by (simp_all add: clearAllEffects_def)

lemma triggerEffect_hasGroup: "hasGroup (triggerEffect rnd kind c) = hasGroup c"
  by (cases kind)
     (simp_all add: triggerEffect_def Let_def clearAllEffects_fields emitResonance_fields
        emitPrism_fields emitRift_fields createSpikes_fields)

lemma triggerEffect_active: "hasGroup c \<Longrightarrow> activeEffect (triggerEffect rnd kind c) = kind"
  by (cases kind) (simp_all add: triggerEffect_def Let_def clearAllEffects_fields)

lemma setExclusive_hasGroup: "hasGroup (setExclusiveEffect rnd kind c) = hasGroup c"
  by (simp add: setExclusiveEffect_def clearAllEffects_fields triggerEffect_hasGroup)

lemma setExclusive_trigger:
  "kind \<noteq> activeEffect c \<Longrightarrow> kind \<noteq> idle \<Longrightarrow>
   setExclusiveEffect rnd kind c = triggerEffect rnd kind c"
  by (auto simp: setExclusiveEffect_def)

lemma setExclusive_active:
  "hasGroup c \<Longrightarrow> kind \<noteq> activeEffect c \<Longrightarrow> kind \<noteq> idle \<Longrightarrow>
   activeEffect (setExclusiveEffect rnd kind c) = kind"
  by (simp add: setExclusive_trigger triggerEffect_active)

lemma spikesWhileActive_fields:
  "activeEffect (spikesWhileActive rnd low mid high beat c) = activeEffect c"
  "hasGroup (spikesWhileActive rnd low mid high beat c) = hasGroup c"
  by (simp_all add: spikesWhileActive_def triggerSpikes_fields)

lemma reinforceActive_fields:
  "activeEffect (reinforceActive rnd low mid high beat c) = activeEffect c"
  "hasGroup (reinforceActive rnd low mid high beat c) = hasGroup c"
  by (simp_all add: reinforceActive_def Let_def emitResonance_fields emitPrism_fields
        emitRift_fields)

text \<open>
  Claim C5. On an initialised sphere, triggering a kind other than \<open>idle\<close> makes that
  kind the active one and leaves every group of another kind empty: all four groups are
  cleared first, and the fresh batch (3 rings, 120 rays, one batch of 2000 particles, or
  36 spikes) goes into the group of the new kind only. A switch to a kind that is not
  the active one is such a trigger.
\<close>

theorem triggerEffect_exclusive_pools:
  assumes "hasGroup c" and "kind \<noteq> idle"
  shows "activeEffect (triggerEffect rnd kind c) = kind
    \<and> resonance_children (clearAllEffects c) = [] \<and> prism_children (clearAllEffects c) = []
    \<and> rift_children (clearAllEffects c) = [] \<and> spikes_children (clearAllEffects c) = []
    \<and> (kind \<noteq> resonance \<longrightarrow> resonance_children (triggerEffect rnd kind c) = [])
    \<and> (kind \<noteq> prism \<longrightarrow> prism_children (triggerEffect rnd kind c) = [])
    \<and> (kind \<noteq> rift \<longrightarrow> rift_children (triggerEffect rnd kind c) = [])
    \<and> (kind \<noteq> spikes \<longrightarrow> spikes_children (triggerEffect rnd kind c) = [])
    \<and> (kind = resonance \<longrightarrow> length (resonance_children (triggerEffect rnd kind c)) = 3)
    \<and> (kind = prism \<longrightarrow> length (prism_children (triggerEffect rnd kind c)) = 120)
    \<and> (kind = rift \<longrightarrow>
          map (\<lambda>b. length (rift_particles b)) (rift_children (triggerEffect rnd kind c)) = [2000])
    \<and> (kind = spikes \<longrightarrow> length (spikes_children (triggerEffect rnd kind c)) = 36)
    \<and> (kind \<noteq> activeEffect c \<longrightarrow> setExclusiveEffect rnd kind c = triggerEffect rnd kind c)"
  using assms
  by (cases kind)
     (simp_all add: triggerEffect_def Let_def clearAllEffects_def emitResonance_def emitPrism_def
        emitRift_def createSpikes_def setExclusiveEffect_def)

text \<open>
  The theorem at a sphere that holds two rings and is switched to the rift: the ring
  group is empty afterwards and the rift group holds the one new batch.
\<close>

theorem triggerEffect_exclusive_pools_witness:
  "hasGroup (emitResonance 2 (init newCrystalSphere))
   \<and> length (resonance_children (emitResonance 2 (init newCrystalSphere))) = 2
   \<and> activeEffect (triggerEffect halves rift (emitResonance 2 (init newCrystalSphere))) = rift
   \<and> resonance_children (triggerEffect halves rift (emitResonance 2 (init newCrystalSphere))) = []
   \<and> prism_children (triggerEffect halves rift (emitResonance 2 (init newCrystalSphere))) = []
   \<and> spikes_children (triggerEffect halves rift (emitResonance 2 (init newCrystalSphere))) = []
   \<and> map (\<lambda>b. length (rift_particles b))
        (rift_children (triggerEffect halves rift (emitResonance 2 (init newCrystalSphere)))) = [2000]"
proof -
  have g: "hasGroup (emitResonance 2 (init newCrystalSphere))"
    by (simp add: emitResonance_fields init_def newCrystalSphere_def applyTheme_def)
  have k: "rift \<noteq> idle" by simp
  have n: "length (resonance_children (emitResonance 2 (init newCrystalSphere))) = 2"
    by (simp add: emitResonance_def init_def newCrystalSphere_def applyTheme_def)
  from triggerEffect_exclusive_pools[OF g k, of halves] show ?thesis using g n by simp
qed

text \<open>The theme index that \<^verbatim>\<open>setThemeByEnergyInstrument\<close> computes, and when it applies.\<close>

lemma setTheme_unfold:
  "setThemeByEnergyInstrument e i c =
     (if selectTheme_code e i \<noteq> themeIndex c
      then applyTheme (c\<lparr> themeIndex := selectTheme_code e i \<rparr>) else c)"
  by (cases i) (simp_all add: setThemeByEnergyInstrument_def selectTheme_code_def Let_def)

lemma selectTheme_agree:
  "i \<noteq> none \<Longrightarrow> selectTheme_code e i = selectTheme_spec e i cur"
  by (cases i) (simp_all add: selectTheme_code_def selectTheme_spec_def)

lemma selectTheme_valid: "selectTheme_code e i < themes_length"
  by (cases i) (simp_all add: selectTheme_code_def themes_length_def)

lemma guitarSphere_index: "themeIndex guitarSphere = 2"
  by (simp add: guitarSphere_def setTheme_unfold selectTheme_code_def themes_length_def
        applyTheme_def init_def newCrystalSphere_def)

text \<open>
  Claim C7, as amended. The base index is 0 for bass, 1 for guitar, 2 for drums and 0
  for none; with an energy above 0.35 it advances by one modulo the number of themes.
  The resulting index is always a valid theme index. The theme is applied, once, exactly
  when the resulting index differs from the current one, and otherwise the sphere is left
  as it is. For the three instruments the index is the one the specification words.
\<close>

theorem setTheme_selects:
  "themeIndex (setThemeByEnergyInstrument e i c) = selectTheme_code e i
   \<and> selectTheme_code e i < themes_length
   \<and> applyThemeCalls (setThemeByEnergyInstrument e i c) =
       applyThemeCalls c + (if selectTheme_code e i \<noteq> themeIndex c then 1 else 0)
   \<and> (selectTheme_code e i = themeIndex c \<longrightarrow> setThemeByEnergyInstrument e i c = c)
   \<and> (i \<noteq> none \<longrightarrow> selectTheme_code e i = selectTheme_spec e i (themeIndex c))"
  using selectTheme_agree[of i e "themeIndex c"] selectTheme_valid[of e i]
  by (simp add: setTheme_unfold applyTheme_def)

text \<open>
  The theorem at the initialised sphere and a loud guitar frame: the index moves from 0
  to 2 and the theme is applied once more.
\<close>

theorem setTheme_selects_witness:
  "guitar \<noteq> none
   \<and> themeIndex (init newCrystalSphere) = 0
   \<and> selectTheme_spec 0.5 guitar (themeIndex (init newCrystalSphere)) = 2
   \<and> themeIndex (setThemeByEnergyInstrument 0.5 guitar (init newCrystalSphere)) = 2
   \<and> applyThemeCalls (setThemeByEnergyInstrument 0.5 guitar (init newCrystalSphere)) =
       applyThemeCalls (init newCrystalSphere) + 1
   \<and> themeIndex (setThemeByEnergyInstrument 0.1 none (init newCrystalSphere)) = 0
   \<and> setThemeByEnergyInstrument 0.1 none (init newCrystalSphere) = init newCrystalSphere"
proof -
  have i0: "themeIndex (init newCrystalSphere) = 0"
    by (simp add: init_def newCrystalSphere_def applyTheme_def)
  have s: "selectTheme_spec 0.5 guitar 0 = 2" "selectTheme_code 0.1 none = 0"
    by (simp_all add: selectTheme_spec_def selectTheme_code_def themes_length_def)
  from setTheme_selects[of "0.5" guitar "init newCrystalSphere"]
       setTheme_selects[of "0.1" none "init newCrystalSphere"]
  show ?thesis using i0 s by simp
qed

text \<open>
  The claim as it is worded keeps the current index for \<open>none\<close>. On the sphere with the
  theme index 2, a quiet frame without an instrument would keep the index 2; the code
  sets it to 0.
\<close>

theorem theme_none_counterexample:
  "themeIndex guitarSphere = 2
   \<and> selectTheme_spec 0 none (themeIndex guitarSphere) = 2
   \<and> themeIndex (setThemeByEnergyInstrument 0 none guitarSphere) = 0"
  by (simp add: guitarSphere_index setTheme_unfold selectTheme_code_def selectTheme_spec_def
        applyTheme_def)

section \<open>Properties of the effect selection\<close>

lemma chooseEffect_firstMatch:
  "chooseEffect low mid high rms beat = firstMatch (effectLadder low mid high rms beat)"
  by (simp add: chooseEffect_def firstMatch_def effectLadder_def Let_def mult.commute)

lemma chooseEffect_not_idle: "chooseEffect low mid high rms beat \<noteq> Some idle"
  by (simp add: chooseEffect_def Let_def)

text \<open>
  One call of \<^verbatim>\<open>updateFromAudio\<close> on a scene with a sphere: the sphere it leaves,
  its active effect and the switch time.
\<close>

lemma updateFrame_Some:
  assumes c: "crystal sv = Some c"
  obtains c4 where
    "crystal (updateFrame rnd f sv) = Some c4"
    "hasGroup c4 = hasGroup c"
    "hasGroup c \<Longrightarrow> switchApplied f sv \<Longrightarrow>
       chooseEffect (f_low f) (f_mid f) (f_high f) (f_rms f) (f_beat f) = Some (activeEffect c4)"
    "\<not> switchApplied f sv \<Longrightarrow> activeEffect c4 = activeEffect c"
    "lastEffectSwitchAt (updateFrame rnd f sv) =
       (if switchApplied f sv then f_now f else lastEffectSwitchAt sv)"
proof -
  define chosen where "chosen = chooseEffect (f_low f) (f_mid f) (f_high f) (f_rms f) (f_beat f)"
  define sv1 where
    "sv1 = sv\<lparr> lastRms := f_rms f, lastLow := f_low f, lastMid := f_mid f, lastHigh := f_high f \<rparr>"
  define c1 where "c1 = setThemeByEnergyInstrument
     (min 1 (f_low f * 0.5 + f_mid f * 0.3 + f_high f * 0.2 + f_rms f * 0.3))
     (currentInstrument sv1) c"
  define sw where "sw = switchApplied f sv"
  define c2 where "c2 = (if sw then setExclusiveEffect rnd (the chosen) c1 else c1)"
  define c4 where "c4 = reinforceActive rnd (f_low f) (f_mid f) (f_high f) (f_beat f)
     (spikesWhileActive rnd (f_low f) (f_mid f) (f_high f) (f_beat f) c2)"
  have a1: "activeEffect c1 = activeEffect c" "hasGroup c1 = hasGroup c"
    by (simp_all add: c1_def setTheme_fields)
  have ak: "activeKind sv = activeEffect c"
    by (simp add: activeKind_def c getActiveEffect_def)
  have eq: "updateFrame rnd f sv =
      sv1\<lparr> lastEffectSwitchAt := (if sw then f_now f else lastEffectSwitchAt sv),
           crystal := Some c4 \<rparr>"
    unfolding updateFrame_def updateFromAudio_def sv1_def[symmetric] Let_def
    using c a1
    by (cases "chooseEffect (f_low f) (f_mid f) (f_high f) (f_rms f) (f_beat f)")
       (simp_all add: sv1_def c1_def c2_def c4_def sw_def switchApplied_def ak chosen_def
          getActiveEffect_def)
  have a4: "activeEffect c4 = activeEffect c2" "hasGroup c4 = hasGroup c2"
    by (simp_all add: c4_def spikesWhileActive_fields reinforceActive_fields)
  have g2: "hasGroup c2 = hasGroup c"
    by (simp add: c2_def setExclusive_hasGroup a1)
  have applied: "chosen = Some (activeEffect c2)" if "hasGroup c" "sw"
  proof -
    from \<open>sw\<close> obtain kind where k: "chosen = Some kind" "kind \<noteq> activeEffect c"
      by (auto simp: sw_def switchApplied_def ak chosen_def split: option.splits)
    have "kind \<noteq> idle"
      using chooseEffect_not_idle[of "f_low f" "f_mid f" "f_high f" "f_rms f" "f_beat f"] k
      by (auto simp: chosen_def)
    then show ?thesis using that k a1 by (simp add: c2_def setExclusive_active)
  qed
  have retained: "activeEffect c2 = activeEffect c" if "\<not> sw"
    using that by (simp add: c2_def a1)
  show ?thesis
  proof (rule that[of c4])
    show "crystal (updateFrame rnd f sv) = Some c4" by (simp add: eq)
    show "hasGroup c4 = hasGroup c" by (simp add: a4 g2)
    show "chooseEffect (f_low f) (f_mid f) (f_high f) (f_rms f) (f_beat f) = Some (activeEffect c4)"
      if "hasGroup c" "switchApplied f sv"
      using applied that by (simp add: a4 sw_def chosen_def)
    show "activeEffect c4 = activeEffect c" if "\<not> switchApplied f sv"
      using retained that by (simp add: a4 sw_def)
    show "lastEffectSwitchAt (updateFrame rnd f sv) =
       (if switchApplied f sv then f_now f else lastEffectSwitchAt sv)"
      by (simp add: eq sw_def sv1_def)
  qed
qed

lemma updateFrame_None:
  "crystal sv = None \<Longrightarrow> activeKind (updateFrame rnd f sv) = activeKind sv"
  by (simp add: updateFrame_def updateFromAudio_def Let_def activeKind_def)

lemma updateFrame_ready: "ready sv \<Longrightarrow> ready (updateFrame rnd f sv)"
proof -
  assume "ready sv"
  then obtain c where c: "crystal sv = Some c" "hasGroup c"
    by (auto simp: ready_def split: option.splits)
  from updateFrame_Some[OF c(1), of rnd f]
  obtain c4 where "crystal (updateFrame rnd f sv) = Some c4" "hasGroup c4 = hasGroup c"
    by metis
  then show ?thesis using c by (simp add: ready_def)
qed

lemma updateFrame_hold: "minHoldSeconds (updateFrame rnd f sv) = minHoldSeconds sv"
  by (simp add: updateFrame_def updateFromAudio_def Let_def split: option.split prod.split)

lemma updateFrame_step:
  assumes r: "ready sv"
  shows "switchApplied f sv \<Longrightarrow>
           chooseEffect (f_low f) (f_mid f) (f_high f) (f_rms f) (f_beat f)
             = Some (activeKind (updateFrame rnd f sv))"
    and "\<not> switchApplied f sv \<Longrightarrow> activeKind (updateFrame rnd f sv) = activeKind sv"
    and "lastEffectSwitchAt (updateFrame rnd f sv) =
           (if switchApplied f sv then f_now f else lastEffectSwitchAt sv)"
proof -
  from r obtain c where c: "crystal sv = Some c" "hasGroup c"
    by (auto simp: ready_def split: option.splits)
  from updateFrame_Some[OF c(1), of rnd f]
  obtain c4 where c4: "crystal (updateFrame rnd f sv) = Some c4"
    "hasGroup c \<Longrightarrow> switchApplied f sv \<Longrightarrow>
       chooseEffect (f_low f) (f_mid f) (f_high f) (f_rms f) (f_beat f) = Some (activeEffect c4)"
    "\<not> switchApplied f sv \<Longrightarrow> activeEffect c4 = activeEffect c"
    "lastEffectSwitchAt (updateFrame rnd f sv) =
       (if switchApplied f sv then f_now f else lastEffectSwitchAt sv)"
    by metis
  have k: "activeKind (updateFrame rnd f sv) = activeEffect c4" "activeKind sv = activeEffect c"
    using c4(1) c(1) by (simp_all add: activeKind_def getActiveEffect_def)
  show "switchApplied f sv \<Longrightarrow>
           chooseEffect (f_low f) (f_mid f) (f_high f) (f_rms f) (f_beat f)
             = Some (activeKind (updateFrame rnd f sv))"
    using c4(2)[OF c(2)] k by simp
  show "\<not> switchApplied f sv \<Longrightarrow> activeKind (updateFrame rnd f sv) = activeKind sv"
    using c4(3) k by simp
  show "lastEffectSwitchAt (updateFrame rnd f sv) =
           (if switchApplied f sv then f_now f else lastEffectSwitchAt sv)"
    by (rule c4(4))
qed

lemma switch_iff_changed:
  assumes r: "ready sv"
  shows "activeKind (updateFrame rnd f sv) \<noteq> activeKind sv \<longleftrightarrow> switchApplied f sv"
proof
  assume "activeKind (updateFrame rnd f sv) \<noteq> activeKind sv"
  then show "switchApplied f sv" using updateFrame_step(2)[OF r, of f rnd] by blast
next
  assume s: "switchApplied f sv"
  then have "chooseEffect (f_low f) (f_mid f) (f_high f) (f_rms f) (f_beat f)
      = Some (activeKind (updateFrame rnd f sv))"
    by (rule updateFrame_step(1)[OF r])
  then show "activeKind (updateFrame rnd f sv) \<noteq> activeKind sv"
    using s by (auto simp: switchApplied_def)
qed

text \<open>Every later switch lies more than the hold interval after the recorded switch time.\<close>

lemma kindSwitches_after_last:
  "ready sv \<Longrightarrow> minHoldSeconds sv = h \<Longrightarrow> 0 \<le> h \<Longrightarrow>
   \<forall>x \<in> set (kindSwitches rnd sv fs). x - lastEffectSwitchAt sv > h"
proof (induction fs arbitrary: sv)
  case Nil
  then show ?case by simp
next
  case (Cons f fs)
  let ?sv' = "updateFrame rnd f sv"
  have r': "ready ?sv'" using Cons.prems(1) by (rule updateFrame_ready)
  have h': "minHoldSeconds ?sv' = h" using Cons.prems(2) by (simp add: updateFrame_hold)
  have IH: "\<forall>x \<in> set (kindSwitches rnd ?sv' fs). x - lastEffectSwitchAt ?sv' > h"
    using Cons.IH[OF r' h' Cons.prems(3)] .
  show ?case
  proof (cases "switchApplied f sv")
    case True
    then have gap: "f_now f - lastEffectSwitchAt sv > h"
      using Cons.prems(2) by (auto simp: switchApplied_def split: option.splits)
    have last': "lastEffectSwitchAt ?sv' = f_now f"
      using updateFrame_step(3)[OF Cons.prems(1), of rnd f] True by simp
    have ch: "activeKind ?sv' \<noteq> activeKind sv"
      using switch_iff_changed[OF Cons.prems(1), of rnd f] True by simp
    show ?thesis using ch IH gap last' Cons.prems(3) by (fastforce simp: Let_def)
  next
    case False
    have last': "lastEffectSwitchAt ?sv' = lastEffectSwitchAt sv"
      using updateFrame_step(3)[OF Cons.prems(1), of rnd f] False by simp
    have ch: "activeKind ?sv' = activeKind sv"
      using switch_iff_changed[OF Cons.prems(1), of rnd f] False by simp
    show ?thesis using ch IH last' by (simp add: Let_def)
  qed
qed

lemma kindSwitches_spaced:
  "ready sv \<Longrightarrow> minHoldSeconds sv = h \<Longrightarrow> 0 \<le> h \<Longrightarrow>
   sorted_wrt (\<lambda>a b. b - a > h) (kindSwitches rnd sv fs)"
proof (induction fs arbitrary: sv)
  case Nil
  then show ?case by simp
next
  case (Cons f fs)
  let ?sv' = "updateFrame rnd f sv"
  have r': "ready ?sv'" using Cons.prems(1) by (rule updateFrame_ready)
  have h': "minHoldSeconds ?sv' = h" using Cons.prems(2) by (simp add: updateFrame_hold)
  have IH: "sorted_wrt (\<lambda>a b. b - a > h) (kindSwitches rnd ?sv' fs)"
    using Cons.IH[OF r' h' Cons.prems(3)] .
  show ?case
  proof (cases "activeKind ?sv' \<noteq> activeKind sv")
    case True
    then have "switchApplied f sv"
      using switch_iff_changed[OF Cons.prems(1), of rnd f] by simp
    then have last': "lastEffectSwitchAt ?sv' = f_now f"
      using updateFrame_step(3)[OF Cons.prems(1), of rnd f] by simp
    have "\<forall>x \<in> set (kindSwitches rnd ?sv' fs). x - f_now f > h"
      using kindSwitches_after_last[OF r' h' Cons.prems(3), of rnd fs] last' by simp
    then show ?thesis using True IH by (simp add: Let_def)
  next
    case False
    then show ?thesis using IH by (simp add: Let_def)
  qed
qed

lemma updateFrame_retain:
  "\<not> switchApplied f sv \<Longrightarrow> activeKind (updateFrame rnd f sv) = activeKind sv"
proof (cases "crystal sv")
  case None
  then show ?thesis by (rule updateFrame_None)
next
  case (Some c)
  assume n: "\<not> switchApplied f sv"
  from updateFrame_Some[OF Some, of rnd f]
  obtain c4 where "crystal (updateFrame rnd f sv) = Some c4"
    "\<not> switchApplied f sv \<Longrightarrow> activeEffect c4 = activeEffect c"
    by metis
  then show ?thesis using n Some by (simp add: activeKind_def getActiveEffect_def)
qed

text \<open>
  Claim C2. The selector is the priority ladder read from the top, the first rule that
  matches giving the kind: spikes on a beat with high above 0.55, prism on high above 0.6
  with mid above 0.5, resonance on mid above 0.55 with low below 0.4, rift on low above
  0.55, and then, on the combined energy 0.45 low + 0.35 mid + 0.2 high + 0.3 rms, prism
  above 0.5 and resonance above 0.35. It never selects \<open>idle\<close>. When no rule matches it
  reports no change, and the call of \<^verbatim>\<open>updateFromAudio\<close> then leaves the active kind
  as it was.
\<close>

theorem chooseEffect_priority_ladder:
  "chooseEffect low mid high rms beat = firstMatch (effectLadder low mid high rms beat)
   \<and> chooseEffect low mid high rms beat \<noteq> Some idle
   \<and> (chooseEffect low mid high rms beat = None \<longrightarrow>
        activeKind (updateFromAudio now rnd rms low mid high beat sv) = activeKind sv)"
proof -
  let ?f = "\<lparr> f_now = now, f_rms = rms, f_low = low, f_mid = mid, f_high = high, f_beat = beat \<rparr>"
  have u: "updateFrame rnd ?f sv = updateFromAudio now rnd rms low mid high beat sv"
    by (simp add: updateFrame_def)
  have "activeKind (updateFromAudio now rnd rms low mid high beat sv) = activeKind sv"
    if "chooseEffect low mid high rms beat = None"
  proof -
    have "\<not> switchApplied ?f sv" using that by (simp add: switchApplied_def)
    from updateFrame_retain[OF this, of rnd] show ?thesis by (simp add: u)
  qed
  then show ?thesis
    using chooseEffect_firstMatch[of low mid high rms beat]
      chooseEffect_not_idle[of low mid high rms beat]
    by blast
qed

text \<open>
  The theorem at a silent frame, which selects nothing and keeps the active kind of the
  new scene, with the ladder evaluated on three more frames.
\<close>

theorem chooseEffect_priority_ladder_witness:
  "chooseEffect 0 0 0 0 False = None
   \<and> activeKind (updateFromAudio 10 halves 0 0 0 0 False newSceneView) = activeKind newSceneView
   \<and> firstMatch (effectLadder 0.6 0.2 0.1 0.3 False) = Some rift
   \<and> firstMatch (effectLadder 0.2 0.6 0.7 0.3 True) = Some spikes
   \<and> firstMatch (effectLadder 0.5 0.5 0.5 0.1 False) = Some prism
   \<and> firstMatch (effectLadder 0.5 0.3 0.3 0 False) = Some resonance"
proof -
  have n: "chooseEffect 0 0 0 0 False = None" by (simp add: chooseEffect_def)
  have l: "firstMatch (effectLadder 0.6 0.2 0.1 0.3 False) = Some rift"
    "firstMatch (effectLadder 0.2 0.6 0.7 0.3 True) = Some spikes"
    "firstMatch (effectLadder 0.5 0.5 0.5 0.1 False) = Some prism"
    "firstMatch (effectLadder 0.5 0.3 0.3 0 False) = Some resonance"
    by (simp_all add: firstMatch_def effectLadder_def)
  from chooseEffect_priority_ladder[of 0 0 0 0 False 10 halves newSceneView]
  show ?thesis using n l by simp
qed

text \<open>
  Claim C4. On a scene whose sphere is initialised and whose hold is 3 seconds, one call
  applies a switch exactly when a kind is chosen, it differs from the active kind and
  more than 3 seconds have passed since the recorded switch time. The active kind
  changes exactly when a switch is applied, it is then the chosen kind, and the recorded
  switch time becomes the time of the call exactly then; otherwise kind and time are
  retained. Over any sequence of frames two changes of the active kind lie more than 3
  seconds apart, so that a window of 3 seconds holds at most one change.
\<close>

theorem effect_switch_hold:
  assumes "ready sv" and "minHoldSeconds sv = 3"
  shows "(switchApplied f sv \<longleftrightarrow>
            (\<exists>kind. chooseEffect (f_low f) (f_mid f) (f_high f) (f_rms f) (f_beat f) = Some kind
               \<and> kind \<noteq> activeKind sv \<and> f_now f - lastEffectSwitchAt sv > 3))
    \<and> (activeKind (updateFrame rnd f sv) \<noteq> activeKind sv \<longleftrightarrow> switchApplied f sv)
    \<and> (switchApplied f sv \<longrightarrow>
          chooseEffect (f_low f) (f_mid f) (f_high f) (f_rms f) (f_beat f)
            = Some (activeKind (updateFrame rnd f sv)))
    \<and> lastEffectSwitchAt (updateFrame rnd f sv) =
         (if switchApplied f sv then f_now f else lastEffectSwitchAt sv)
    \<and> sorted_wrt (\<lambda>a b. b - a > 3) (kindSwitches rnd sv fs)
    \<and> (\<forall>w. length (filter (\<lambda>t. w \<le> t \<and> t \<le> w + 3) (kindSwitches rnd sv fs)) \<le> 1)"
proof -
  have sp: "sorted_wrt (\<lambda>a b. b - a > 3) (kindSwitches rnd sv fs)"
    using kindSwitches_spaced[OF assms, of rnd fs] by simp
  have win: "\<forall>w. length (filter (\<lambda>t. w \<le> t \<and> t \<le> w + 3) (kindSwitches rnd sv fs)) \<le> 1"
    using spaced_window_gt[OF sp] by blast
  have def: "switchApplied f sv \<longleftrightarrow>
            (\<exists>kind. chooseEffect (f_low f) (f_mid f) (f_high f) (f_rms f) (f_beat f) = Some kind
               \<and> kind \<noteq> activeKind sv \<and> f_now f - lastEffectSwitchAt sv > 3)"
    using assms(2) by (auto simp: switchApplied_def split: option.splits)
  show ?thesis
    using sp win def switch_iff_changed[OF assms(1), of rnd f]
      updateFrame_step(1)[OF assms(1), of f rnd] updateFrame_step(3)[OF assms(1), of rnd f]
    by blast
qed

text \<open>
  The theorem at the new scene and three frames: a rift frame at 4 s switches, a prism
  frame at 5 s is held back, and a prism frame at 8 s switches.
\<close>

lemma kindSwitches_example:
  "kindSwitches halves newSceneView [riftFrame 4, prismFrame 5, prismFrame 8] = [4, 8]"
proof -
  define s1 where "s1 = updateFrame halves (riftFrame 4) newSceneView"
  define s2 where "s2 = updateFrame halves (prismFrame 5) s1"
  define s3 where "s3 = updateFrame halves (prismFrame 8) s2"
  have r0: "ready newSceneView"
    by (simp add: ready_def newSceneView_def init_def newCrystalSphere_def applyTheme_def)
  have a0: "activeKind newSceneView = idle"
    by (simp add: activeKind_def getActiveEffect_def newSceneView_def init_def
          newCrystalSphere_def applyTheme_def)
  have cr: "chooseEffect (f_low (riftFrame t)) (f_mid (riftFrame t)) (f_high (riftFrame t))
              (f_rms (riftFrame t)) (f_beat (riftFrame t)) = Some rift" for t
    by (simp add: riftFrame_def chooseEffect_def)
  have cp: "chooseEffect (f_low (prismFrame t)) (f_mid (prismFrame t)) (f_high (prismFrame t))
              (f_rms (prismFrame t)) (f_beat (prismFrame t)) = Some prism" for t
    by (simp add: prismFrame_def chooseEffect_def)
  have sw0: "switchApplied (riftFrame 4) newSceneView"
    by (simp add: switchApplied_def cr a0) (simp add: newSceneView_def riftFrame_def)
  have r1: "ready s1" unfolding s1_def using r0 by (rule updateFrame_ready)
  have a1: "activeKind s1 = rift"
    using updateFrame_step(1)[OF r0 sw0, of halves] by (simp add: cr s1_def)
  have l1: "lastEffectSwitchAt s1 = 4"
    using updateFrame_step(3)[OF r0, of halves "riftFrame 4"] sw0
    by (simp add: s1_def riftFrame_def)
  have h1: "minHoldSeconds s1 = 3" by (simp add: s1_def updateFrame_hold newSceneView_def)
  have sw1: "\<not> switchApplied (prismFrame 5) s1"
    by (simp add: switchApplied_def cp a1 l1 h1) (simp add: prismFrame_def)
  have r2: "ready s2" unfolding s2_def using r1 by (rule updateFrame_ready)
  have a2: "activeKind s2 = rift"
    using updateFrame_step(2)[OF r1 sw1, of halves] by (simp add: a1 s2_def)
  have l2: "lastEffectSwitchAt s2 = 4"
    using updateFrame_step(3)[OF r1, of halves "prismFrame 5"] sw1 by (simp add: s2_def l1)
  have h2: "minHoldSeconds s2 = 3" by (simp add: s2_def updateFrame_hold h1)
  have sw2: "switchApplied (prismFrame 8) s2"
    by (simp add: switchApplied_def cp a2 l2 h2) (simp add: prismFrame_def)
  have a3: "activeKind s3 = prism"
    using updateFrame_step(1)[OF r2 sw2, of halves] by (simp add: cp s3_def)
  show ?thesis
    using a0 a1 a2 a3
    by (simp add: Let_def s1_def[symmetric] s2_def[symmetric] s3_def[symmetric])
       (simp add: riftFrame_def prismFrame_def)
qed

theorem effect_switch_hold_witness:
  "ready newSceneView \<and> minHoldSeconds newSceneView = 3
   \<and> switchApplied (riftFrame 4) newSceneView
   \<and> activeKind (updateFrame halves (riftFrame 4) newSceneView) = rift
   \<and> lastEffectSwitchAt (updateFrame halves (riftFrame 4) newSceneView) = 4
   \<and> kindSwitches halves newSceneView [riftFrame 4, prismFrame 5, prismFrame 8] = [4, 8]
   \<and> sorted_wrt (\<lambda>a b. b - a > 3)
        (kindSwitches halves newSceneView [riftFrame 4, prismFrame 5, prismFrame 8])
   \<and> length (filter (\<lambda>t. 4 \<le> t \<and> t \<le> 4 + 3)
        (kindSwitches halves newSceneView [riftFrame 4, prismFrame 5, prismFrame 8])) \<le> 1"
proof -
  have r: "ready newSceneView"
    by (simp add: ready_def newSceneView_def init_def newCrystalSphere_def applyTheme_def)
  have h: "minHoldSeconds newSceneView = 3" by (simp add: newSceneView_def)
  have a0: "activeKind newSceneView = idle"
    by (simp add: activeKind_def getActiveEffect_def newSceneView_def init_def
          newCrystalSphere_def applyTheme_def)
  have c: "chooseEffect (f_low (riftFrame 4)) (f_mid (riftFrame 4)) (f_high (riftFrame 4))
              (f_rms (riftFrame 4)) (f_beat (riftFrame 4)) = Some rift"
    by (simp add: riftFrame_def chooseEffect_def)
  have sw: "switchApplied (riftFrame 4) newSceneView"
    by (simp add: switchApplied_def c a0) (simp add: newSceneView_def riftFrame_def)
  have t: "f_now (riftFrame 4) = 4" by (simp add: riftFrame_def)
  from effect_switch_hold[OF r h, of "riftFrame 4" halves
         "[riftFrame 4, prismFrame 5, prismFrame 8]"]
  show ?thesis using r h sw c t kindSwitches_example by simp
qed

section \<open>Properties of the resonance rings\<close>

text \<open>
  One update of a ring. While its delay is positive only the delay is counted down:
  life, scale and opacity stay as they are. Once the delay is used up, the life goes
  down by 0.6 per second, the scale is 0.1 + (1 - life) * 1.4, the opacity is the sine
  envelope cut off at 0, and the ring is disposed when its life is used up.
\<close>

lemma resonanceStep_delayed:
  "ring_delay w > 0 \<Longrightarrow> resonanceStep dt w = Some (w\<lparr> ring_delay := ring_delay w - dt \<rparr>)"
  by (simp add: resonanceStep_def)

lemma resonanceStep_aging:
  "\<not> ring_delay w > 0 \<Longrightarrow> ring_life w - dt * 0.6 > 0 \<Longrightarrow>
   resonanceStep dt w =
     Some (w\<lparr> ring_life := ring_life w - dt * 0.6,
              ring_scale := 0.1 + (1 - (ring_life w - dt * 0.6)) * 1.4,
              ring_opacity := max 0 (sin ((ring_life w - dt * 0.6) * pi)) \<rparr>)"
  by (simp add: resonanceStep_def Let_def)

lemma resonanceStep_disposed:
  "\<not> ring_delay w > 0 \<Longrightarrow> \<not> ring_life w - dt * 0.6 > 0 \<Longrightarrow> resonanceStep dt w = None"
  by (simp add: resonanceStep_def Let_def)

lemma emitResonance_rings:
  "resonance_children (emitResonance 3 (init newCrystalSphere)) =
     [\<lparr> ring_life = 1, ring_delay = 0, ring_scale = 0.1, ring_opacity = 1 \<rparr>,
      \<lparr> ring_life = 1, ring_delay = 0.06, ring_scale = 0.1, ring_opacity = 1 \<rparr>,
      \<lparr> ring_life = 1, ring_delay = 0.12, ring_scale = 0.1, ring_opacity = 1 \<rparr>]"
  by (simp add: emitResonance_def init_def newCrystalSphere_def applyTheme_def upt_rec)

text \<open>
  Claim C8. Three rings are emitted on an initialised sphere and the rings are updated
  once with dt = 1/60. The second and the third ring are still delayed (13/300 and 31/300
  seconds remain) and have not aged (life 1), but their opacity is 1, the value they
  were created with, and not 0: a delayed ring is drawn, at the scale 0.1.
\<close>

theorem delayed_rings_visible:
  "map (\<lambda>w. (ring_delay w, ring_life w, ring_scale w, ring_opacity w))
       (tl (resonance_children
             (updateResonance (1 / 60) (emitResonance 3 (init newCrystalSphere)))))
     = [(13 / 300, 1, 1 / 10, 1), (31 / 300, 1, 1 / 10, 1)]"
  by (simp add: updateResonance_def emitResonance_rings resonanceStep_def List.map_filter_def
        Let_def)

section \<open>Properties of the rift particles\<close>

text \<open>One step of a particle, and one update of the rift group, written out.\<close>

lemma riftStep_unfold:
  "riftStep R dt pd =
     (if p_life pd - dt > 0
      then pd\<lparr> p_life := p_life pd - dt,
               p_pos := R (p_velocity pd) (p_rotationSpeed pd)
                          (add (p_pos pd) (multiplyScalar (p_velocity pd) dt)) \<rparr>
      else pd\<lparr> p_life := p_life pd - dt \<rparr>)"
  by (simp add: riftStep_def Let_def)

lemma updateRift_Cons:
  "rift_children c = neb # others \<Longrightarrow>
   updateRift R dt c =
     (if rift_opacity neb - dt * 0.4 \<le> 0
      then c\<lparr> rift_children := others, bloomStrength := 1.2 \<rparr>
      else c\<lparr> rift_children :=
               \<lparr> rift_particles = map (riftStep R dt) (rift_particles neb),
                 rift_opacity = rift_opacity neb - dt * 0.4 \<rparr> # others \<rparr>)"
  by (simp add: updateRift_def Let_def)

text \<open>The particles that \<^verbatim>\<open>emitRift\<close> creates from the sequence above.\<close>

lemma sqrt_sixteenth: "sqrt (1 / 16) = 1 / 4"
  by (rule real_sqrt_unique) (simp_all add: power2_eq_square)

lemma newParticle_riftRandom: "newParticle riftRandom (6 * m) = emittedParticle"
proof -
  have m: "(6 * m) mod 6 = 0" "(6 * m + 1) mod 6 = 1" "(6 * m + 2) mod 6 = 2"
    "(6 * m + 3) mod 6 = 3" "(6 * m + 4) mod 6 = 4" "(6 * m + 5) mod 6 = 5"
    by presburger+
  have r: "riftRandom (6 * m) = 1 / 2" "riftRandom (6 * m + 1) = 3 / 4"
    "riftRandom (6 * m + 2) = 1 / 2" "riftRandom (6 * m + 3) = 1 / 2"
    "riftRandom (6 * m + 4) = 1 / 2" "riftRandom (6 * m + 5) = 3 / 4"
    unfolding riftRandom_def m by simp_all
  have n: "normalizeV (1 / 4, 0, 0) = (1, 0, 0)"
    by (simp add: normalizeV_def sqrt_sixteenth)
  show ?thesis
    unfolding newParticle_def emittedParticle_def r by (simp add: n)
qed

lemma emitRift_riftRandom:
  assumes "randomCalls c = 6 * k"
  shows "rift_children (emitRift riftRandom n c) =
           rift_children c @ [\<lparr> rift_particles = replicate n emittedParticle, rift_opacity = 1 \<rparr>]"
    and "randomCalls (emitRift riftRandom n c) = 6 * (k + n)"
proof -
  have "newParticle riftRandom (6 * k + 6 * i) = emittedParticle" for i
    using newParticle_riftRandom[of "k + i"] by (simp add: algebra_simps)
  then have "map (\<lambda>i. newParticle riftRandom (randomCalls c + 6 * i)) [0 ..< n]
      = map (\<lambda>i. emittedParticle) [0 ..< n]"
    using assms by simp
  then show "rift_children (emitRift riftRandom n c) =
           rift_children c @ [\<lparr> rift_particles = replicate n emittedParticle, rift_opacity = 1 \<rparr>]"
    by (simp add: emitRift_def Let_def map_replicate_const)
  show "randomCalls (emitRift riftRandom n c) = 6 * (k + n)"
    using assms by (simp add: emitRift_def Let_def)
qed

lemma riftedSphere_children:
  "rift_children riftedSphere =
     [\<lparr> rift_particles = replicate 2000 emittedParticle, rift_opacity = 1 \<rparr>,
      \<lparr> rift_particles = replicate 900 emittedParticle, rift_opacity = 1 \<rparr>]"
proof -
  define c1 where
    "c1 = clearAllEffects (setThemeByEnergyInstrument 0.47 none (init newCrystalSphere))"
  have z: "randomCalls c1 = 6 * 0" "rift_children c1 = []"
    by (simp_all add: c1_def clearAllEffects_def setThemeByEnergyInstrument_def Let_def
          applyTheme_def init_def newCrystalSphere_def)
  have g: "hasGroup (setThemeByEnergyInstrument 0.47 none (init newCrystalSphere))"
    by (simp add: setTheme_fields init_def newCrystalSphere_def applyTheme_def)
  have t: "triggerEffect riftRandom rift
             (setThemeByEnergyInstrument 0.47 none (init newCrystalSphere))
      = (emitRift riftRandom 2000 c1)\<lparr> bloomStrength := 1.6, activeEffect := rift \<rparr>"
    using g by (simp add: triggerEffect_def c1_def)
  have a: "rift_children (emitRift riftRandom 2000 c1) =
      [\<lparr> rift_particles = replicate 2000 emittedParticle, rift_opacity = 1 \<rparr>]"
    "randomCalls (emitRift riftRandom 2000 c1) = 6 * (0 + 2000)"
    using emitRift_riftRandom[OF z(1), of 2000] z(2) by simp_all
  define c2 where
    "c2 = (emitRift riftRandom 2000 c1)\<lparr> bloomStrength := 1.6, activeEffect := rift \<rparr>"
  have b: "randomCalls c2 = 6 * 2000" "rift_children c2 =
      [\<lparr> rift_particles = replicate 2000 emittedParticle, rift_opacity = 1 \<rparr>]"
    using a by (simp_all add: c2_def)
  show ?thesis
    unfolding riftedSphere_def t c2_def[symmetric]
    using emitRift_riftRandom(1)[OF b(1), of 900] b(2) by simp
qed

text \<open>The rift frame at 4 s takes the new scene to this sphere.\<close>

lemma riftedSphere_reached:
  "crystal (updateFrame riftRandom (riftFrame 4) newSceneView) = Some riftedSphere"
proof -
  have ch: "chooseEffect (3 / 5) (1 / 5) (1 / 10) (3 / 10) False = Some rift"
    by (simp add: chooseEffect_def)
  let ?c1 = "setThemeByEnergyInstrument (47 / 100) none (init newCrystalSphere)"
  have a1: "activeEffect ?c1 = idle" "hasGroup ?c1"
    by (simp_all add: setTheme_fields init_def newCrystalSphere_def applyTheme_def)
  have se: "setExclusiveEffect riftRandom rift ?c1 = triggerEffect riftRandom rift ?c1"
    using a1 by (simp add: setExclusive_trigger)
  have at: "activeEffect (triggerEffect riftRandom rift ?c1) = rift"
    using a1 by (simp add: triggerEffect_active)
  have sp: "spikesWhileActive riftRandom (3 / 5) (1 / 5) (1 / 10) False
      (triggerEffect riftRandom rift ?c1) = triggerEffect riftRandom rift ?c1"
    by (simp add: spikesWhileActive_def getActiveEffect_def at)
  have re: "reinforceActive riftRandom (3 / 5) (1 / 5) (1 / 10) False
      (triggerEffect riftRandom rift ?c1)
        = emitRift riftRandom 900 (triggerEffect riftRandom rift ?c1)"
    by (simp add: reinforceActive_def getActiveEffect_def at)
  show ?thesis
    by (simp add: updateFrame_def updateFromAudio_def riftFrame_def newSceneView_def ch
          getActiveEffect_def riftedSphere_def Let_def a1 se sp re)
qed

text \<open>
  Claim C9. The rift frame at 4 s switches the new scene to the rift and, with low above
  0.55, emits the reinforcing batch in the same call, so the rift group holds two
  batches, of 2000 and of 900 particles. Every particle is alive (life 9/5) with the
  velocity (3, 0, 0) and the rotation speed 1/100. One update with dt = 1/60 steps the
  first batch only: every particle of the second batch keeps its life and stays at the
  origin, where the claim has it advanced by velocity * dt. For a particle of the first
  batch the advanced position (1/20, 0, 0) is handed to the library rotation with the
  velocity (3, 0, 0) itself as the axis and with the angle 1/100, which is the rotation
  speed, where the claim has the angle rotationSpeed * dt = 1/6000. The last part gives
  the step of any particle: the angle it passes never depends on dt.
\<close>

theorem rift_update_first_batch_only:
  "crystal (updateFrame riftRandom (riftFrame 4) newSceneView) = Some riftedSphere
   \<and> rift_children riftedSphere =
       [\<lparr> rift_particles = replicate 2000 emittedParticle, rift_opacity = 1 \<rparr>,
        \<lparr> rift_particles = replicate 900 emittedParticle, rift_opacity = 1 \<rparr>]
   \<and> p_life emittedParticle - 1 / 60 > 0
   \<and> add (p_pos emittedParticle) (multiplyScalar (p_velocity emittedParticle) (1 / 60))
       = (1 / 20, 0, 0)
   \<and> rift_children (updateRift R (1 / 60) riftedSphere) =
       [\<lparr> rift_particles =
            replicate 2000
              (emittedParticle\<lparr> p_life := 9 / 5 - 1 / 60,
                                p_pos := R (3, 0, 0) (1 / 100) (1 / 20, 0, 0) \<rparr>),
          rift_opacity = 1 - 1 / 60 * 0.4 \<rparr>,
        \<lparr> rift_particles = replicate 900 emittedParticle, rift_opacity = 1 \<rparr>]
   \<and> riftStep R dt pd =
       (if p_life pd - dt > 0
        then pd\<lparr> p_life := p_life pd - dt,
                 p_pos := R (p_velocity pd) (p_rotationSpeed pd)
                            (add (p_pos pd) (multiplyScalar (p_velocity pd) dt)) \<rparr>
        else pd\<lparr> p_life := p_life pd - dt \<rparr>)"
proof -
  have s: "riftStep R (1 / 60) emittedParticle =
     emittedParticle\<lparr> p_life := 9 / 5 - 1 / 60, p_pos := R (3, 0, 0) (1 / 100) (1 / 20, 0, 0) \<rparr>"
    by (simp add: riftStep_unfold emittedParticle_def)
  have u: "rift_children (updateRift R (1 / 60) riftedSphere) =
     [\<lparr> rift_particles = replicate 2000 (riftStep R (1 / 60) emittedParticle),
        rift_opacity = 1 - 1 / 60 * 0.4 \<rparr>,
      \<lparr> rift_particles = replicate 900 emittedParticle, rift_opacity = 1 \<rparr>]"
    by (simp add: updateRift_Cons[OF riftedSphere_children])
  have p: "p_life emittedParticle - 1 / 60 > 0"
    "add (p_pos emittedParticle) (multiplyScalar (p_velocity emittedParticle) (1 / 60))
       = (1 / 20, 0, 0)"
    by (simp_all add: emittedParticle_def)
  show ?thesis
    using riftedSphere_reached riftedSphere_children p u riftStep_unfold[of R dt pd]
    by (simp only: s simp_thms)
qed

end
